theory Spec2Isabelle
  imports Complex_Main
begin

section \<open>Python values used by the AI service layer\<close>

text \<open>
  The development embeds \<^verbatim>\<open>backend/src/ai/services.py\<close> (class \<^verbatim>\<open>AIProcessor\<close>).

  A Python \<^verbatim>\<open>str\<close> is a sequence of Unicode code points; \<^verbatim>\<open>len\<close>, slicing and
  \<^verbatim>\<open>strip\<close> count code points.  A string is therefore a list of code points, and the
  literals of the source are written with \<open>py\<close>.
\<close>

type_synonym pystr = "nat list"

definition py :: "string \<Rightarrow> pystr" where
  "py s = map of_char s"

text \<open>
  \<^verbatim>\<open>str.isspace\<close> of one code point, as CPython's \<^verbatim>\<open>_PyUnicode_IsWhitespace\<close> lists them:
  U+0009..U+000D, U+001C..U+0020, U+0085, U+00A0, U+1680, U+2000..U+200A, U+2028, U+2029,
  U+202F, U+205F, U+3000.
\<close>

definition isspace :: "nat \<Rightarrow> bool" where
  "isspace c \<longleftrightarrow>
     (9 \<le> c \<and> c \<le> 13) \<or> (28 \<le> c \<and> c \<le> 32) \<or> c = 133 \<or> c = 160 \<or> c = 5760 \<or>
     (8192 \<le> c \<and> c \<le> 8202) \<or> c = 8232 \<or> c = 8233 \<or> c = 8239 \<or> c = 8287 \<or> c = 12288"

text \<open>\<^verbatim>\<open>s.strip()\<close> without arguments removes leading and trailing whitespace.\<close>

definition strip :: "pystr \<Rightarrow> pystr" where
  "strip s = rev (dropWhile isspace (rev (dropWhile isspace s)))"

text \<open>\<^verbatim>\<open>sep.join(parts)\<close>.\<close>

fun join :: "pystr \<Rightarrow> pystr list \<Rightarrow> pystr" where
  "join sep [] = []"
| "join sep [x] = x"
| "join sep (x # y # ys) = x @ sep @ join sep (y # ys)"

text \<open>\<^verbatim>\<open>str(n)\<close> of an integer, in decimal.\<close>

fun str_nat :: "nat \<Rightarrow> pystr" where
  "str_nat n = (if n < 10 then [48 + n] else str_nat (n div 10) @ [48 + n mod 10])"

definition str_int :: "int \<Rightarrow> pystr" where
  "str_int i = (if i < 0 then 45 # str_nat (nat (- i)) else str_nat (nat i))"

text \<open>
  Values decoded from JSON and values held in metadata dictionaries.  A \<^verbatim>\<open>dict\<close> is an
  association list in insertion order, read through \<open>dict_get\<close>.
\<close>

datatype json =
    JNull
  | JBool bool
  | JInt int
  | JFloat real
  | JStr pystr
  | JArr "json list"
  | JObj "(pystr \<times> json) list"

type_synonym dict = "(pystr \<times> json) list"

definition dict_get :: "dict \<Rightarrow> pystr \<Rightarrow> json option" where
  "dict_get d k = map_of d k"

text \<open>\<^verbatim>\<open>d[k] = v\<close>: an existing key keeps its position, a new key is appended.\<close>

fun dict_set :: "pystr \<Rightarrow> json \<Rightarrow> dict \<Rightarrow> dict" where
  "dict_set k v [] = [(k, v)]"
| "dict_set k v ((k', v') # d) = (if k' = k then (k, v) # d else (k', v') # dict_set k v d)"

text \<open>\<^verbatim>\<open>d.setdefault(k, v)\<close>, as a statement: only a missing key is set.\<close>

definition setdefault :: "pystr \<Rightarrow> json \<Rightarrow> dict \<Rightarrow> dict" where
  "setdefault k v d = (case dict_get d k of None \<Rightarrow> dict_set k v d | Some _ \<Rightarrow> d)"

text \<open>
  Exceptions are values.  The constructors are the classes the source distinguishes in its
  handlers (\<^verbatim>\<open>json.JSONDecodeError\<close>, \<^verbatim>\<open>httpx.TimeoutException\<close>, \<^verbatim>\<open>RuntimeError\<close>) and
  one for every other subclass of \<^verbatim>\<open>Exception\<close>; each carries its message.
\<close>

datatype exn =
    JSONDecodeError pystr
  | TimeoutException pystr
  | RuntimeError pystr
  | OtherException pystr

fun str_exn :: "exn \<Rightarrow> pystr" where
  "str_exn (JSONDecodeError m) = m"
| "str_exn (TimeoutException m) = m"
| "str_exn (RuntimeError m) = m"
| "str_exn (OtherException m) = m"

text \<open>
  What an \<^verbatim>\<open>await\<close> can raise.  The calls to the embedder, the index, the splitter and the
  decoder are synchronous and raise exceptions as above.  The request to the chat-completion
  endpoint is awaited: besides such an exception, the \<^verbatim>\<open>await\<close> raises
  \<^verbatim>\<open>asyncio.CancelledError\<close> when the task is cancelled while it waits.
  \<^verbatim>\<open>CancelledError\<close> derives from \<^verbatim>\<open>BaseException\<close> and not from \<^verbatim>\<open>Exception\<close>: no handler
  \<^verbatim>\<open>except Exception\<close> catches it.
\<close>

datatype raised =
    Raised exn
  | CancelledError

section \<open>External services\<close>

text \<open>
  The processor talks to an embedding model, a vector index, an HTTP chat-completion
  endpoint, the clock, a text splitter and the JSON decoder.  Their behaviour is not part
  of the source: each is a function on an abstract world \<open>'w\<close> that returns an outcome
  (\<open>Inl\<close> an exception) and the next world.  Every request sent out is recorded in a
  trace of events, in order.
\<close>

record query_request =
  q_vector :: "real list"
  q_top_k :: nat
  q_filter :: "int option"    \<comment> \<open>\<open>Some d\<close> is \<^verbatim>\<open>{"document_id": {"$eq": d}}\<close>\<close>
  q_include_metadata :: bool
  q_include_values :: "bool option"   \<comment> \<open>\<open>None\<close> when the call does not pass it\<close>

text \<open>
  One match of a query response.  \<^verbatim>\<open>match.get('score', 0)\<close>, \<^verbatim>\<open>match.get('metadata', {})\<close>,
  \<^verbatim>\<open>metadata.get('text', '')\<close> and \<^verbatim>\<open>metadata.get('chunk_index', 0)\<close> read keys that may be
  absent, so each is optional here; a present score is a number, a present text a string.
\<close>

record match_metadata =
  md_text :: "pystr option"
  md_chunk_index :: "int option"

record match =
  m_score :: "real option"
  m_metadata :: "match_metadata option"

record query_response =
  r_matches :: "match list option"   \<comment> \<open>the key \<^verbatim>\<open>'matches'\<close>, when present\<close>

record vector_record =
  v_id :: pystr
  v_values :: "real list"
  v_metadata :: dict

record groq_request =
  g_url :: pystr
  g_authorization :: pystr
  g_model :: pystr
  g_messages :: "(pystr \<times> pystr) list"   \<comment> \<open>role and content\<close>
  g_temperature :: real
  g_max_tokens :: nat
  g_timeout :: real

text \<open>
  An HTTP response: the status code, the body text, and what
  \<^verbatim>\<open>response.json()["choices"][0]["message"]["content"]\<close> evaluates to (an exception when
  decoding or one of the lookups raises).
\<close>

record http_response =
  h_status_code :: int
  h_text :: pystr
  h_content :: "exn + pystr"

datatype event =
    Encode "pystr list"
  | Query query_request
  | Upsert "vector_record list"
  | HttpPost groq_request
  | Sleep real

record 'w services =
  encode :: "pystr list \<Rightarrow> 'w \<Rightarrow> (exn + real list list) \<times> 'w"
  index_query :: "query_request \<Rightarrow> 'w \<Rightarrow> (exn + query_response) \<times> 'w"
  index_upsert :: "vector_record list \<Rightarrow> 'w \<Rightarrow> (exn + unit) \<times> 'w"
  http_post :: "groq_request \<Rightarrow> 'w \<Rightarrow> (raised + http_response) \<times> 'w"
  time_time :: "'w \<Rightarrow> real \<times> 'w"
  time_sleep :: "real \<Rightarrow> 'w \<Rightarrow> 'w"
  split_text :: "pystr \<Rightarrow> exn + pystr list"
  json_loads :: "pystr \<Rightarrow> exn + json"

type_synonym 'w st = "'w \<times> event list"

definition call_encode :: "'w services \<Rightarrow> pystr list \<Rightarrow> 'w st \<Rightarrow> (exn + real list list) \<times> 'w st" where
  "call_encode sv texts s =
     (case encode sv texts (fst s) of (r, w') \<Rightarrow> (r, (w', snd s @ [Encode texts])))"

definition call_query :: "'w services \<Rightarrow> query_request \<Rightarrow> 'w st \<Rightarrow> (exn + query_response) \<times> 'w st" where
  "call_query sv req s =
     (case index_query sv req (fst s) of (r, w') \<Rightarrow> (r, (w', snd s @ [Query req])))"

definition call_upsert :: "'w services \<Rightarrow> vector_record list \<Rightarrow> 'w st \<Rightarrow> (exn + unit) \<times> 'w st" where
  "call_upsert sv batch s =
     (case index_upsert sv batch (fst s) of (r, w') \<Rightarrow> (r, (w', snd s @ [Upsert batch])))"

definition call_post :: "'w services \<Rightarrow> groq_request \<Rightarrow> 'w st \<Rightarrow> (raised + http_response) \<times> 'w st" where
  "call_post sv req s =
     (case http_post sv req (fst s) of (r, w') \<Rightarrow> (r, (w', snd s @ [HttpPost req])))"

definition call_sleep :: "'w services \<Rightarrow> real \<Rightarrow> 'w st \<Rightarrow> 'w st" where
  "call_sleep sv d s = (time_sleep sv d (fst s), snd s @ [Sleep d])"

definition call_time :: "'w services \<Rightarrow> 'w st \<Rightarrow> real \<times> 'w st" where
  "call_time sv s = (case time_time sv (fst s) of (t, w') \<Rightarrow> (t, (w', snd s)))"

section \<open>The processor\<close>

text \<open>
  \<^verbatim>\<open>self.client\<close> is \<^verbatim>\<open>None\<close> or the dictionary built by \<^verbatim>\<open>_init_groq\<close>; \<^verbatim>\<open>self.index\<close> is
  \<^verbatim>\<open>None\<close> or an index handle; \<^verbatim>\<open>self.embedding_dim\<close> is set to 768 by \<^verbatim>\<open>_init_embeddings\<close>.
\<close>

record groq_client =
  c_api_key :: pystr
  c_base_url :: pystr
  c_model :: pystr
  c_timeout :: real

record processor =
  client :: "groq_client option"
  index_available :: bool

definition embedding_dim :: nat where
  "embedding_dim = 768"

subsection \<open>\<^verbatim>\<open>_embed\<close>\<close>

text \<open>\<^verbatim>\<open>any(vec_list)\<close>: some element is truthy, that is, not zero.\<close>

definition py_any :: "real list \<Rightarrow> bool" where
  "py_any vec_list = list_ex (\<lambda>x. x \<noteq> 0) vec_list"

text \<open>The loop \<^verbatim>\<open>for vec in vectors\<close>, with \<^verbatim>\<open>final_vectors\<close> as accumulator.\<close>

fun embed_loop :: "real list list \<Rightarrow> real list list \<Rightarrow> real list list" where
  "embed_loop [] final_vectors = final_vectors"
| "embed_loop (vec_list # vectors) final_vectors =
     (if \<not> py_any vec_list then embed_loop vectors final_vectors
      else if length vec_list \<noteq> embedding_dim then embed_loop vectors final_vectors
      else embed_loop vectors (final_vectors @ [vec_list]))"

definition embed :: "'w services \<Rightarrow> pystr list \<Rightarrow> 'w st \<Rightarrow> (exn + real list list) \<times> 'w st" where
  "embed sv texts s =
     (if texts = [] then (Inr [], s)
      else case call_encode sv texts s of
             (Inl e, s') \<Rightarrow> (Inl e, s')
           | (Inr vectors, s') \<Rightarrow> (Inr (embed_loop vectors []), s'))"

subsection \<open>\<^verbatim>\<open>_call_groq_api\<close>\<close>

text \<open>
  The handlers around the request: a \<^verbatim>\<open>httpx.TimeoutException\<close> becomes a
  \<^verbatim>\<open>RuntimeError\<close> with a fixed message, every other exception is raised again as it is;
  a \<^verbatim>\<open>CancelledError\<close> meets no handler.
\<close>

definition groq_handlers :: "raised \<Rightarrow> raised" where
  "groq_handlers x =
     (case x of
        Raised (TimeoutException _) \<Rightarrow>
          Raised (RuntimeError (py ''AI service timeout. Please try again.''))
      | _ \<Rightarrow> x)"

text \<open>The URL, the \<^verbatim>\<open>headers\<close>, the \<^verbatim>\<open>payload\<close> and the timeout of the request.\<close>

definition groq_request :: "groq_client \<Rightarrow> (pystr \<times> pystr) list \<Rightarrow> real \<Rightarrow> groq_request" where
  "groq_request c messages temperature =
     \<lparr>g_url = c_base_url c @ py ''/chat/completions'',
      g_authorization = py ''Bearer '' @ c_api_key c,
      g_model = c_model c,
      g_messages = messages,
      g_temperature = temperature,
      g_max_tokens = 4000,
      g_timeout = c_timeout c\<rparr>"

definition call_groq_api ::
  "processor \<Rightarrow> 'w services \<Rightarrow> (pystr \<times> pystr) list \<Rightarrow> real \<Rightarrow> 'w st \<Rightarrow> (raised + pystr) \<times> 'w st" where
  "call_groq_api p sv messages temperature s =
     (case client p of
        None \<Rightarrow> (Inl (Raised (RuntimeError (py ''Groq client not initialized''))), s)
      | Some c \<Rightarrow>
          (case call_post sv (groq_request c messages temperature) s of
             (Inl x, s') \<Rightarrow> (Inl (groq_handlers x), s')
           | (Inr response, s') \<Rightarrow>
               if h_status_code response \<noteq> 200 then
                 (Inl (groq_handlers (Raised (RuntimeError
                    (py ''Groq API error '' @ str_int (h_status_code response) @ py '': '' @
                     h_text response)))), s')
               else
                 (case h_content response of
                    Inl e \<Rightarrow> (Inl (groq_handlers (Raised e)), s')
                  | Inr content \<Rightarrow> (Inr content, s'))))"

subsection \<open>\<^verbatim>\<open>analyze_document\<close> and \<^verbatim>\<open>_fallback_analysis\<close>\<close>

definition fallback_analysis :: dict where
  "fallback_analysis =
     [(py ''summary'', JStr (py ''Analysis unavailable. Manual legal review required.'')),
      (py ''key_points'', JArr []),
      (py ''clauses'', JArr []),
      (py ''risks'', JArr []),
      (py ''recommendations'', JArr [JStr (py ''Manual legal review required'')]),
      (py ''processing_time'', JFloat 0)]"

definition analysis_system_prompt :: pystr where
  \<open>analysis_system_prompt = join [10]
     [py ''You are a legal document analysis expert. Analyze the legal document and return STRICT JSON format with the following structure:'',
      py ''{'',
      py ''  "summary": "string",'',
      py ''  "key_points": ["string"],'',
      py ''  "clauses": [],'',
      py ''  "risks": [],'',
      py ''  "recommendations": []'',
      py ''}'',
      [],
      py ''Return ONLY the JSON object, no additional text.'']\<close>

definition startswith :: "pystr \<Rightarrow> pystr \<Rightarrow> bool" where
  "startswith s prefix = (take (length prefix) s = prefix)"

definition endswith :: "pystr \<Rightarrow> pystr \<Rightarrow> bool" where
  "endswith s suffix = (length suffix \<le> length s \<and> drop (length s - length suffix) s = suffix)"

text \<open>
  \<^verbatim>\<open>re.sub(r"^```json|```$", "", raw)\<close>.  The first alternative matches only at position 0;
  the second only where three backquotes are followed by the end of the string or by a
  newline that ends the string.  Matches do not overlap, so the second alternative is
  looked for in what follows a match of the first.
\<close>

definition re_sub_fence :: "pystr \<Rightarrow> pystr" where
  \<open>re_sub_fence raw =
     (let rest = (if startswith raw (py ''```json'') then drop 7 raw else raw) in
      if endswith rest (py ''```'') then take (length rest - 3) rest
      else if endswith rest (py ''```'' @ [10]) then take (length rest - 4) rest @ [10]
      else rest)\<close>

text \<open>The name Python gives the type of a decoded JSON value, for the message of an
  \<^verbatim>\<open>AttributeError\<close>.\<close>

fun type_name :: "json \<Rightarrow> pystr" where
  "type_name JNull = py ''NoneType''"
| "type_name (JBool _) = py ''bool''"
| "type_name (JInt _) = py ''int''"
| "type_name (JFloat _) = py ''float''"
| "type_name (JStr _) = py ''str''"
| "type_name (JArr _) = py ''list''"
| "type_name (JObj _) = py ''dict''"

text \<open>The loop \<^verbatim>\<open>for key in [...]: data.setdefault(key, [] if key != "summary" else "")\<close>.\<close>

definition backfill_keys :: "pystr list" where
  "backfill_keys =
     [py ''summary'', py ''key_points'', py ''clauses'', py ''risks'', py ''recommendations'']"

definition backfill :: "dict \<Rightarrow> dict" where
  "backfill data =
     fold (\<lambda>key. setdefault key (if key \<noteq> py ''summary'' then JArr [] else JStr []))
       backfill_keys data"

text \<open>"Clean the response": strip it and, when it starts with a code fence, remove the fence.\<close>

definition clean_response :: "pystr \<Rightarrow> pystr" where
  \<open>clean_response response_text =
     (let raw = strip response_text in
      if startswith raw (py ''```'') then strip (re_sub_fence raw) else raw)\<close>

text \<open>
  The body of the \<^verbatim>\<open>try\<close> block.  \<^verbatim>\<open>data.setdefault\<close> exists only on a \<^verbatim>\<open>dict\<close>: any other
  decoded value raises \<^verbatim>\<open>AttributeError\<close>.
\<close>

definition analysis_messages :: "pystr \<Rightarrow> (pystr \<times> pystr) list" where
  "analysis_messages truncated_text =
     [(py ''system'', analysis_system_prompt),
      (py ''user'', py ''Document to analyze:'' @ [10] @ truncated_text)]"

definition analyze_try ::
  "processor \<Rightarrow> 'w services \<Rightarrow> pystr \<Rightarrow> real \<Rightarrow> 'w st \<Rightarrow> (raised + dict) \<times> 'w st" where
  \<open>analyze_try p sv truncated_text start s =
     (case call_groq_api p sv (analysis_messages truncated_text) (1 / 10) s of
        (Inl x, s1) \<Rightarrow> (Inl x, s1)
      | (Inr response_text, s1) \<Rightarrow>
          (case json_loads sv (clean_response response_text) of
             Inl e \<Rightarrow> (Inl (Raised e), s1)
           | Inr (JObj data) \<Rightarrow>
               (case call_time sv s1 of
                  (t, s2) \<Rightarrow>
                    (Inr (dict_set (py ''processing_time'') (JFloat (t - start)) (backfill data)), s2))
           | Inr v \<Rightarrow>
               (Inl (Raised (OtherException
                  ([39] @ type_name v @ [39] @ py '' object has no attribute '' @ [39] @
                   py ''setdefault'' @ [39]))), s1)))\<close>

text \<open>
  The two handlers, \<^verbatim>\<open>except json.JSONDecodeError\<close> and \<^verbatim>\<open>except Exception\<close>: the fallback
  with the elapsed time and an \<^verbatim>\<open>error\<close> entry.  A \<^verbatim>\<open>CancelledError\<close> passes both.
\<close>

definition analysis_error :: "exn \<Rightarrow> pystr" where
  "analysis_error e =
     (case e of
        JSONDecodeError m \<Rightarrow> py ''AI response parsing failed: '' @ m
      | _ \<Rightarrow> str_exn e)"

definition analysis_failure :: "exn \<Rightarrow> real \<Rightarrow> dict" where
  "analysis_failure e elapsed =
     dict_set (py ''error'') (JStr (analysis_error e))
       (dict_set (py ''processing_time'') (JFloat elapsed) fallback_analysis)"

text \<open>\<^verbatim>\<open>text[:5000] if len(text) > 5000 else text\<close>.\<close>

definition truncated :: "pystr \<Rightarrow> pystr" where
  "truncated txt = (if length txt > 5000 then take 5000 txt else txt)"

definition analyze_document :: "processor \<Rightarrow> 'w services \<Rightarrow> pystr \<Rightarrow> 'w st \<Rightarrow> (raised + dict) \<times> 'w st" where
  "analyze_document p sv txt s =
     (if client p = None \<or> strip txt = [] then (Inr fallback_analysis, s)
      else
        (case call_time sv s of
           (start, s0) \<Rightarrow>
             (case analyze_try p sv (truncated txt) start s0 of
                (Inr data, s1) \<Rightarrow> (Inr data, s1)
              | (Inl (Raised e), s1) \<Rightarrow>
                  (case call_time sv s1 of
                     (t, s2) \<Rightarrow> (Inr (analysis_failure e (t - start)), s2))
              | (Inl CancelledError, s1) \<Rightarrow> (Inl CancelledError, s1))))"

subsection \<open>\<^verbatim>\<open>store_document_embeddings\<close>\<close>

definition batch_size :: nat where
  "batch_size = 50"

text \<open>One entry of \<^verbatim>\<open>payload\<close>: the dictionary literal, then \<^verbatim>\<open>**metadata\<close> over it.\<close>

definition make_record :: "int \<Rightarrow> dict \<Rightarrow> nat \<Rightarrow> pystr \<Rightarrow> real list \<Rightarrow> vector_record" where
  "make_record document_id metadata i chunk vec =
     (let clean_chunk = strip (map (\<lambda>c. if c = 10 then 32 else c) chunk) in
      \<lparr>v_id = py ''doc-'' @ str_int document_id @ py ''-chunk-'' @ str_nat i,
       v_values = vec,
       v_metadata =
         fold (\<lambda>(k, v). dict_set k v) metadata
           [(py ''document_id'', JInt document_id),
            (py ''chunk_index'', JInt (int i)),
            (py ''text'', JStr (take 800 clean_chunk)),
            (py ''chunk_length'', JInt (int (length chunk)))]\<rparr>)"

text \<open>
  The loop \<^verbatim>\<open>for i, (chunk, vec) in enumerate(zip(chunks, vectors))\<close>, with \<^verbatim>\<open>payload\<close> and
  \<^verbatim>\<open>successful_vectors\<close> as accumulators.  On strings and vectors its body raises nothing.
\<close>

fun prepare_loop ::
  "int \<Rightarrow> dict \<Rightarrow> nat \<Rightarrow> (pystr \<times> real list) list \<Rightarrow> vector_record list \<times> nat \<Rightarrow> vector_record list \<times> nat" where
  "prepare_loop document_id metadata i [] acc = acc"
| "prepare_loop document_id metadata i ((chunk, vec) # rest) (payload, successful_vectors) =
     prepare_loop document_id metadata (i + 1) rest
       (payload @ [make_record document_id metadata i chunk vec], successful_vectors + 1)"

text \<open>The loop \<^verbatim>\<open>for i in range(0, len(payload), batch_size)\<close>; an exception of \<^verbatim>\<open>upsert\<close> ends it.\<close>

function upload_batches :: "'w services \<Rightarrow> vector_record list \<Rightarrow> nat \<Rightarrow> 'w st \<Rightarrow> (exn + unit) \<times> 'w st" where
  "upload_batches sv payload i s =
     (if i < length payload then
        (case call_upsert sv (take batch_size (drop i payload)) s of
           (Inl e, s') \<Rightarrow> (Inl e, s')
         | (Inr _, s') \<Rightarrow> upload_batches sv payload (i + batch_size) s')
      else (Inr (), s))"
  by pat_completeness auto
termination
  by (relation "measure (\<lambda>(sv, payload, i, s). length payload - i)") (auto simp: batch_size_def)

declare upload_batches.simps [simp del]

text \<open>The inner \<^verbatim>\<open>try\<close>: upload, wait, verify.  Its handler returns \<^verbatim>\<open>False\<close>.\<close>

text \<open>The verification query: the first vector, one result, the filter on the document id.\<close>

definition verify_query :: "int \<Rightarrow> real list list \<Rightarrow> query_request" where
  "verify_query document_id vectors =
     \<lparr>q_vector = (case vectors of [] \<Rightarrow> replicate embedding_dim 0 | v # _ \<Rightarrow> v),
      q_top_k = 1,
      q_filter = Some document_id,
      q_include_metadata = False,
      q_include_values = None\<rparr>"

definition upload_and_verify ::
  "'w services \<Rightarrow> int \<Rightarrow> real list list \<Rightarrow> vector_record list \<Rightarrow> 'w st \<Rightarrow> bool \<times> 'w st" where
  "upload_and_verify sv document_id vectors payload s =
     (case upload_batches sv payload 0 s of
        (Inl e, s1) \<Rightarrow> (False, s1)
      | (Inr _, s1) \<Rightarrow>
          (case call_query sv (verify_query document_id vectors) (call_sleep sv 2 s1) of
             (Inl e, s2) \<Rightarrow> (False, s2)
           | (Inr test_query, s2) \<Rightarrow>
               (case r_matches test_query of
                  None \<Rightarrow> (False, s2)
                | Some ms \<Rightarrow> (ms \<noteq> [], s2))))"

text \<open>The outer \<^verbatim>\<open>try\<close> block.\<close>

definition store_try ::
  "'w services \<Rightarrow> int \<Rightarrow> pystr \<Rightarrow> dict \<Rightarrow> 'w st \<Rightarrow> (exn + bool) \<times> 'w st" where
  "store_try sv document_id txt metadata s =
     (case split_text sv txt of
        Inl e \<Rightarrow> (Inl e, s)
      | Inr chunks0 \<Rightarrow>
          if length chunks0 = 0 then (Inr False, s)
          else
            (case embed sv chunks0 s of
               (Inl e, s1) \<Rightarrow> (Inl e, s1)
             | (Inr vectors0, s1) \<Rightarrow>
                 if length vectors0 = 0 then (Inr False, s1)
                 else
                   (let min_len = min (length vectors0) (length chunks0);
                        vectors = (if length vectors0 \<noteq> length chunks0 then take min_len vectors0 else vectors0);
                        chunks = (if length vectors0 \<noteq> length chunks0 then take min_len chunks0 else chunks0)
                    in case prepare_loop document_id metadata 0 (zip chunks vectors) ([], 0) of
                         (payload, successful_vectors) \<Rightarrow>
                           if successful_vectors = 0 then (Inr False, s1)
                           else
                             (case upload_and_verify sv document_id vectors payload s1 of
                                (b, s2) \<Rightarrow> (Inr b, s2)))))"

definition store_document_embeddings ::
  "processor \<Rightarrow> 'w services \<Rightarrow> int \<Rightarrow> pystr \<Rightarrow> dict \<Rightarrow> 'w st \<Rightarrow> (exn + bool) \<times> 'w st" where
  "store_document_embeddings p sv document_id txt metadata s =
     (if \<not> index_available p then (Inr False, s)
      else if txt = [] \<or> strip txt = [] then (Inr False, s)
      else
        (case store_try sv document_id txt metadata s of
           (Inl e, s1) \<Rightarrow> (Inr False, s1)
         | (Inr b, s1) \<Rightarrow> (Inr b, s1)))"

text \<open>
  The payload in the words of the description: one record per pair of a chunk and a
  vector, numbered from 0.
\<close>

definition paired_records :: "int \<Rightarrow> dict \<Rightarrow> pystr list \<Rightarrow> real list list \<Rightarrow> vector_record list" where
  "paired_records document_id metadata chunks vectors =
     map (\<lambda>(j, (chunk, vec)). make_record document_id metadata j chunk vec)
       (enumerate 0 (zip chunks vectors))"

text \<open>
  Batches in the words of the description: a list cut into consecutive pieces of \<open>n\<close>
  elements, the last one possibly shorter.
\<close>

function batches :: "nat \<Rightarrow> 'a list \<Rightarrow> 'a list list" where
  "batches n xs = (if n = 0 \<or> xs = [] then [] else take n xs # batches n (drop n xs))"
  by pat_completeness auto
termination
  by (relation "measure (\<lambda>(n, xs). length xs)") auto

declare batches.simps [simp del]

subsection \<open>\<^verbatim>\<open>chat_with_document\<close>\<close>

record source =
  s_chunk_index :: int
  s_score :: real

record chat_answer =
  answer :: pystr
  sources :: "source list"
  response_time :: real

definition msg_no_index :: pystr where
  "msg_no_index = py ''Vector database is not configured. Please check the AI configuration.''"

definition msg_no_client :: pystr where
  "msg_no_client = py ''AI model is not configured. Please check the AI configuration.''"

definition msg_no_embedding :: pystr where
  "msg_no_embedding = py ''Failed to process your question. Please try again.''"

definition msg_insufficient :: pystr where
  "msg_insufficient = py ''I cannot find sufficient information in the document to answer this question. The document may not contain relevant information or the embeddings may need to be regenerated.''"

definition msg_error :: pystr where
  "msg_error = py ''An error occurred while processing your request. Please try again.''"

text \<open>A \<^verbatim>\<open>return\<close> of a fixed answer: empty sources and the time since \<^verbatim>\<open>start\<close>.\<close>

definition fixed_answer :: "'w services \<Rightarrow> pystr \<Rightarrow> real \<Rightarrow> 'w st \<Rightarrow> chat_answer \<times> 'w st" where
  "fixed_answer sv msg start s =
     (case call_time sv s of
        (t, s') \<Rightarrow> (\<lparr>answer = msg, sources = [], response_time = t - start\<rparr>, s'))"

text \<open>\<^verbatim>\<open>results.get('matches', [])\<close>.\<close>

definition matches_of :: "query_response \<Rightarrow> match list" where
  "matches_of results = (case r_matches results of None \<Rightarrow> [] | Some ms \<Rightarrow> ms)"

definition scoped_query :: "int \<Rightarrow> real list \<Rightarrow> query_request" where
  "scoped_query document_id query_vec =
     \<lparr>q_vector = query_vec, q_top_k = 8, q_filter = Some document_id,
      q_include_metadata = True, q_include_values = Some False\<rparr>"

definition unscoped_query :: "real list \<Rightarrow> query_request" where
  "unscoped_query query_vec =
     \<lparr>q_vector = query_vec, q_top_k = 5, q_filter = None,
      q_include_metadata = True, q_include_values = Some False\<rparr>"

text \<open>
  The query with its two nested handlers: the scoped query; when it raises, the query without
  filter; when that raises too, no matches.
\<close>

definition query_matches :: "'w services \<Rightarrow> int \<Rightarrow> real list \<Rightarrow> 'w st \<Rightarrow> match list \<times> 'w st" where
  "query_matches sv document_id query_vec s =
     (case call_query sv (scoped_query document_id query_vec) s of
        (Inr results, s1) \<Rightarrow> (matches_of results, s1)
      | (Inl e, s1) \<Rightarrow>
          (case call_query sv (unscoped_query query_vec) s1 of
             (Inr results, s2) \<Rightarrow> (matches_of results, s2)
           | (Inl e2, s2) \<Rightarrow> ([], s2)))"

text \<open>
  What the loop reads of one match, with the defaults of the \<^verbatim>\<open>get\<close> calls.
\<close>

definition match_score :: "match \<Rightarrow> real" where
  "match_score m = (case m_score m of None \<Rightarrow> 0 | Some x \<Rightarrow> x)"

definition match_text :: "match \<Rightarrow> pystr" where
  "match_text m =
     (case m_metadata m of
        None \<Rightarrow> []
      | Some md \<Rightarrow> (case md_text md of None \<Rightarrow> [] | Some t \<Rightarrow> t))"

definition match_chunk_index :: "match \<Rightarrow> int" where
  "match_chunk_index m =
     (case m_metadata m of
        None \<Rightarrow> 0
      | Some md \<Rightarrow> (case md_chunk_index md of None \<Rightarrow> 0 | Some i \<Rightarrow> i))"

text \<open>
  The loop \<^verbatim>\<open>for match in matches\<close>, with \<^verbatim>\<open>context_chunks\<close> and \<^verbatim>\<open>sources\<close> as accumulators.
  The source compares with the double nearest to 0.3, which lies below 3/10 with no double
  between the two: on every double the comparison agrees with the one against 3/10.
\<close>

fun context_loop :: "match list \<Rightarrow> pystr list \<times> source list \<Rightarrow> pystr list \<times> source list" where
  "context_loop [] acc = acc"
| "context_loop (m # matches) (context_chunks, srcs) =
     (let score = match_score m; chunk_text = match_text m in
      if score > 3 / 10 \<and> chunk_text \<noteq> [] then
        context_loop matches
          (context_chunks @ [chunk_text],
           srcs @ [\<lparr>s_chunk_index = match_chunk_index m, s_score = score\<rparr>])
      else context_loop matches (context_chunks, srcs))"

definition chat_system_prompt :: pystr where
  \<open>chat_system_prompt = join [10]
     [py ''You are a helpful legal document assistant. Answer questions based STRICTLY on the provided context from a legal document.'',
      [],
      py ''IMPORTANT RULES:'',
      py ''1. Use ONLY the information in the provided context'',
      py ''2. If the context has the answer, provide it clearly'',
      py ''3. If you cannot find the answer in the context, say: "Based on the provided context, I cannot find specific information about [topic]."'',
      py ''4. Do NOT make up any information'',
      py ''5. Keep answers concise but complete'']\<close>

definition chat_user_prompt :: "pystr \<Rightarrow> pystr \<Rightarrow> pystr" where
  \<open>chat_user_prompt context question = join [10]
     [py ''Here is context from a legal document:'',
      [],
      context,
      [],
      py ''Based ONLY on the context above, answer this question:'',
      [],
      question,
      [],
      py ''Remember:'',
      py ''- Answer using ONLY the information from the context'',
      py ''- If the answer isn't in the context, say so'',
      py ''- Be specific and accurate'']\<close>

definition chat_messages :: "pystr \<Rightarrow> pystr \<Rightarrow> (pystr \<times> pystr) list" where
  "chat_messages context question =
     [(py ''system'', chat_system_prompt), (py ''user'', chat_user_prompt context question)]"

text \<open>
  The second half of the \<^verbatim>\<open>try\<close> block, from "Build context from matches" to the last
  \<^verbatim>\<open>return\<close>: \<open>Inl\<close> is an exception that leaves the block.
\<close>

definition answer_from_matches ::
  "processor \<Rightarrow> 'w services \<Rightarrow> pystr \<Rightarrow> real \<Rightarrow> real \<Rightarrow> match list \<Rightarrow> 'w st \<Rightarrow> (raised + chat_answer) \<times> 'w st" where
  "answer_from_matches p sv question temperature start matches s2 =
     (case context_loop matches ([], []) of
        (context_chunks, srcs) \<Rightarrow>
          (let context = join [10, 10] context_chunks in
           if context = [] \<or> length (strip context) < 50 then
             (case fixed_answer sv msg_insufficient start s2 of (a, s') \<Rightarrow> (Inr a, s'))
           else
             (case call_groq_api p sv (chat_messages context question) temperature s2 of
                (Inl x, s3) \<Rightarrow> (Inl x, s3)
              | (Inr response_text, s3) \<Rightarrow>
                  (case call_time sv s3 of
                     (t, s4) \<Rightarrow>
                       (Inr \<lparr>answer = response_text, sources = take 5 srcs,
                             response_time = t - start\<rparr>, s4)))))"

text \<open>The \<^verbatim>\<open>try\<close> block: the two availability checks, the query embedding, the retrieval.\<close>

definition chat_try ::
  "processor \<Rightarrow> 'w services \<Rightarrow> int \<Rightarrow> pystr \<Rightarrow> real \<Rightarrow> real \<Rightarrow> 'w st \<Rightarrow> (raised + chat_answer) \<times> 'w st" where
  "chat_try p sv document_id question temperature start s =
     (if \<not> index_available p then
        (case fixed_answer sv msg_no_index start s of (a, s') \<Rightarrow> (Inr a, s'))
      else if client p = None then
        (case fixed_answer sv msg_no_client start s of (a, s') \<Rightarrow> (Inr a, s'))
      else
        (case embed sv [question] s of
           (Inl e, s1) \<Rightarrow> (Inl (Raised e), s1)
         | (Inr [], s1) \<Rightarrow>
             (case fixed_answer sv msg_no_embedding start s1 of (a, s') \<Rightarrow> (Inr a, s'))
         | (Inr (query_vec # _), s1) \<Rightarrow>
             (case query_matches sv document_id query_vec s1 of
                (matches, s2) \<Rightarrow> answer_from_matches p sv question temperature start matches s2)))"

text \<open>
  The handler \<^verbatim>\<open>except Exception\<close> of the block: the fixed error answer.  It catches the
  subclasses of \<^verbatim>\<open>Exception\<close>; a \<^verbatim>\<open>CancelledError\<close> leaves the function.
\<close>

definition chat_except ::
  "'w services \<Rightarrow> real \<Rightarrow> (raised + chat_answer) \<times> 'w st \<Rightarrow> (raised + chat_answer) \<times> 'w st" where
  "chat_except sv start r =
     (case r of
        (Inr a, s1) \<Rightarrow> (Inr a, s1)
      | (Inl (Raised e), s1) \<Rightarrow>
          (case fixed_answer sv msg_error start s1 of (a, s2) \<Rightarrow> (Inr a, s2))
      | (Inl CancelledError, s1) \<Rightarrow> (Inl CancelledError, s1))"

definition chat_with_document ::
  "processor \<Rightarrow> 'w services \<Rightarrow> int \<Rightarrow> pystr \<Rightarrow> real \<Rightarrow> 'w st \<Rightarrow> (raised + chat_answer) \<times> 'w st" where
  "chat_with_document p sv document_id question temperature s =
     (case call_time sv s of
        (start, s0) \<Rightarrow> chat_except sv start (chat_try p sv document_id question temperature start s0))"

text \<open>
  The filter of the retrieval step in the words of its description: a match survives when
  its similarity score is strictly greater than 0.3 and its stored text is not empty; a
  source pairs the chunk index with the score.
\<close>

definition passes_filter :: "match \<Rightarrow> bool" where
  "passes_filter m \<longleftrightarrow> match_score m > 3 / 10 \<and> match_text m \<noteq> []"

definition source_of :: "match \<Rightarrow> source" where
  "source_of m = \<lparr>s_chunk_index = match_chunk_index m, s_score = match_score m\<rparr>"

definition descending :: "real list \<Rightarrow> bool" where
  "descending xs = sorted_wrt (\<lambda>a b. a \<ge> b) xs"

text \<open>The requests to the chat-completion endpoint in a trace.\<close>

fun is_HttpPost :: "event \<Rightarrow> bool" where
  "is_HttpPost (HttpPost _) = True"
| "is_HttpPost _ = False"

fun is_Query :: "event \<Rightarrow> bool" where
  "is_Query (Query _) = True"
| "is_Query _ = False"

section \<open>A sample environment\<close>

text \<open>
  Services with fixed answers, on a world that counts the calls made: the clock shows the
  count.  The index answers \<open>scoped\<close> to a query with a filter and \<open>unscoped\<close> to one
  without; the splitter returns the text as one chunk; the decoder knows the empty object.
\<close>

definition sample_services ::
  "(exn + real list list) \<Rightarrow> (exn + query_response) \<Rightarrow> (exn + query_response) \<Rightarrow>
   (exn + http_response) \<Rightarrow> nat services" where
  \<open>sample_services enc scoped unscoped post =
     \<lparr>encode = (\<lambda>texts w. (enc, Suc w)),
      index_query = (\<lambda>req w. (if q_filter req = None then unscoped else scoped, Suc w)),
      index_upsert = (\<lambda>batch w. (Inr (), Suc w)),
      http_post = (\<lambda>req w. (case post of Inl e \<Rightarrow> Inl (Raised e) | Inr r \<Rightarrow> Inr r, Suc w)),
      time_time = (\<lambda>w. (real w, Suc w)),
      time_sleep = (\<lambda>d w. Suc w),
      split_text = (\<lambda>t. Inr [t]),
      json_loads = (\<lambda>raw. if raw = py ''{}'' then Inr (JObj [])
                          else Inl (JSONDecodeError (py ''Expecting value'')))\<rparr>\<close>


definition sample_client :: groq_client where
  "sample_client =
     \<lparr>c_api_key = py ''key'', c_base_url = py ''https://api.groq.com/openai/v1'',
      c_model = py ''llama'', c_timeout = 60\<rparr>"

definition sample_match :: "real \<Rightarrow> int \<Rightarrow> pystr \<Rightarrow> match" where
  "sample_match sc i t =
     \<lparr>m_score = Some sc, m_metadata = Some \<lparr>md_text = Some t, md_chunk_index = Some i\<rparr>\<rparr>"

definition ok_response :: "pystr \<Rightarrow> http_response" where
  "ok_response content = \<lparr>h_status_code = 200, h_text = content, h_content = Inr content\<rparr>"

definition sample_processor :: processor where
  "sample_processor = \<lparr>client = Some sample_client, index_available = True\<rparr>"

text \<open>Three matches with scores 0.9, 0.5 and 0.2 and texts of thirty characters each.\<close>

definition sample_matches :: "match list" where
  "sample_matches =
     [sample_match (9 / 10) 0 (replicate 30 97),
      sample_match (5 / 10) 1 (replicate 30 98),
      sample_match (2 / 10) 2 (replicate 30 99)]"

text \<open>Two matches that are not in descending order of score.\<close>

definition unordered_matches :: "match list" where
  "unordered_matches =
     [sample_match (1 / 2) 0 (replicate 30 97),
      sample_match (9 / 10) 1 (replicate 30 98)]"

text \<open>One match with a high score and a text of nine characters.\<close>

definition short_matches :: "match list" where
  "short_matches = [sample_match (9 / 10) 0 (py ''too short'')]"

section \<open>Properties\<close>

lemma embed_loop_filter:
  "embed_loop vectors acc = acc @ filter (\<lambda>v. py_any v \<and> length v = embedding_dim) vectors"
  by (induction vectors arbitrary: acc) auto

subsection \<open>The embedder\<close>

lemma py_any_iff: "py_any v \<longleftrightarrow> (\<exists>x\<in>set v. x \<noteq> 0)"
  by (simp add: py_any_def list_ex_iff)

text \<open>
  Claim C8.  Every vector that \<open>embed\<close> returns has length exactly 768 and is not all-zero.
  When the model returns raw vectors, \<open>embed\<close> raises nothing and returns exactly those of
  them that are not all-zero and have length 768, in order, so the output may be shorter
  than the input.  An empty list of texts gives an empty list and leaves the world and the
  trace as they were: the model is not invoked.
\<close>

theorem embed_output_valid:
  "(\<forall>vs s'. embed sv texts s = (Inr vs, s') \<longrightarrow>
      (\<forall>v\<in>set vs. length v = 768 \<and> (\<exists>x\<in>set v. x \<noteq> 0)))
   \<and> (\<forall>raw w'. texts \<noteq> [] \<and> encode sv texts (fst s) = (Inr raw, w') \<longrightarrow>
        embed sv texts s =
          (Inr (filter (\<lambda>v. (\<exists>x\<in>set v. x \<noteq> 0) \<and> length v = 768) raw), (w', snd s @ [Encode texts]))
        \<and> length (filter (\<lambda>v. (\<exists>x\<in>set v. x \<noteq> 0) \<and> length v = 768) raw) \<le> length raw)
   \<and> embed sv [] s = (Inr [], s)"
  by (auto simp: embed_def call_encode_def embed_loop_filter py_any_iff embedding_dim_def
      split: prod.splits sum.splits if_splits)

theorem embed_output_valid_witness:
  "embed (sample_services (Inr [replicate 768 1, replicate 768 0, [1, 2]]) (Inr \<lparr>r_matches = None\<rparr>)
       (Inr \<lparr>r_matches = None\<rparr>) (Inl (RuntimeError []))) [py ''q''] (0, [])
     = (Inr [replicate 768 1], (1, [Encode [py ''q'']]))
   \<and> length (replicate 768 (1::real)) = 768 \<and> list_ex (\<lambda>x. x \<noteq> 0) (replicate 768 (1::real))"
  using embed_output_valid [of "sample_services (Inr [replicate 768 1, replicate 768 0, [1, 2]])
       (Inr \<lparr>r_matches = None\<rparr>) (Inr \<lparr>r_matches = None\<rparr>) (Inl (RuntimeError []))" "[py ''q'']" "(0, [])"]
  by (simp add: sample_services_def list_ex_iff)

subsection \<open>Blank input and missing configuration\<close>

lemma strip_Nil_iff: "strip s = [] \<longleftrightarrow> (\<forall>c\<in>set s. isspace c)"
proof
  assume "strip s = []"
  then have "dropWhile isspace (rev (dropWhile isspace s)) = []"
    by (simp add: strip_def)
  then have "\<forall>c\<in>set (dropWhile isspace s). isspace c"
    by (simp add: dropWhile_eq_Nil_conv)
  moreover have "dropWhile isspace s \<noteq> [] \<Longrightarrow> \<not> isspace (hd (dropWhile isspace s))"
    by (rule hd_dropWhile)
  ultimately have "dropWhile isspace s = []"
    by (cases "dropWhile isspace s") auto
  then show "\<forall>c\<in>set s. isspace c"
    by (simp add: dropWhile_eq_Nil_conv)
next
  assume "\<forall>c\<in>set s. isspace c"
  then have "dropWhile isspace s = []"
    by (simp add: dropWhile_eq_Nil_conv)
  then show "strip s = []"
    by (simp only: strip_def rev.simps dropWhile.simps)
qed

text \<open>
  Claim C10.  The check of the index comes first: without an index handle, chat returns the
  answer that begins "Vector database is not configured", with empty sources, whatever
  \<open>client p\<close> is; no service other than the clock is used.  This answer is not the
  "AI model is not configured" one.
\<close>

theorem chat_no_index:
  "\<not> index_available p \<Longrightarrow>
     chat_with_document p sv document_id question temperature s =
       (case time_time sv (fst s) of
          (t0, w0) \<Rightarrow>
            (case time_time sv w0 of
               (t1, w1) \<Rightarrow>
                 (Inr \<lparr>answer = msg_no_index, sources = [], response_time = t1 - t0\<rparr>, (w1, snd s))))
     \<and> startswith msg_no_index (py ''Vector database is not configured'')
     \<and> msg_no_index \<noteq> msg_no_client"
  by (simp add: chat_with_document_def chat_except_def chat_try_def fixed_answer_def call_time_def
      startswith_def msg_no_index_def msg_no_client_def py_def split: prod.splits)

theorem chat_no_index_witness:
  "\<not> index_available \<lparr>client = None, index_available = False\<rparr>
   \<and> chat_with_document \<lparr>client = None, index_available = False\<rparr>
        (sample_services (Inl (RuntimeError [])) (Inl (RuntimeError [])) (Inl (RuntimeError []))
           (Inl (RuntimeError []))) 7 (py ''What is the term?'') (1 / 10) (0, [])
       = (Inr \<lparr>answer = msg_no_index, sources = [], response_time = 1\<rparr>, (2, []))"
  using chat_no_index [of "\<lparr>client = None, index_available = False\<rparr>"
      "sample_services (Inl (RuntimeError [])) (Inl (RuntimeError [])) (Inl (RuntimeError []))
           (Inl (RuntimeError []))" 7 "py ''What is the term?''" "1 / 10" "(0, [])"]
  by (simp add: sample_services_def)

text \<open>
  Claim C7.  When no client is configured, or the text is empty or consists of whitespace
  only, \<open>analyze_document\<close> returns the canned fallback: the fixed summary, empty
  key points, clauses and risks, the single recommendation, processing time 0 and no
  \<^verbatim>\<open>error\<close> key.  The world and the trace are unchanged: nothing is called.
\<close>

theorem analyze_blank_fallback:
  "client p = None \<or> (\<forall>c\<in>set txt. isspace c) \<Longrightarrow>
     analyze_document p sv txt s = (Inr fallback_analysis, s)
     \<and> fallback_analysis =
         [(py ''summary'', JStr (py ''Analysis unavailable. Manual legal review required.'')),
          (py ''key_points'', JArr []),
          (py ''clauses'', JArr []),
          (py ''risks'', JArr []),
          (py ''recommendations'', JArr [JStr (py ''Manual legal review required'')]),
          (py ''processing_time'', JFloat 0)]
     \<and> dict_get fallback_analysis (py ''error'') = None"
  by (auto simp: analyze_document_def strip_Nil_iff fallback_analysis_def dict_get_def py_def)

theorem analyze_blank_fallback_witness:
  "list_all isspace [32, 10, 9, 160]
   \<and> analyze_document \<lparr>client = Some sample_client, index_available = True\<rparr>
        (sample_services (Inl (RuntimeError [])) (Inl (RuntimeError [])) (Inl (RuntimeError []))
           (Inr (ok_response (py ''{}'')))) [32, 10, 9, 160] (0, [])
       = (Inr fallback_analysis, (0, []))"
  using analyze_blank_fallback [of "\<lparr>client = Some sample_client, index_available = True\<rparr>"
      "[32, 10, 9, 160]"
      "sample_services (Inl (RuntimeError [])) (Inl (RuntimeError [])) (Inl (RuntimeError []))
           (Inr (ok_response (py ''{}'')))" "(0, [])"]
  by (simp add: isspace_def)

subsection \<open>Chat: retrieval, filter and context\<close>

lemma context_loop_filter:
  "context_loop ms (cs, ss) =
     (cs @ map match_text (filter passes_filter ms), ss @ map source_of (filter passes_filter ms))"
  by (induction ms arbitrary: cs ss) (simp_all add: passes_filter_def source_of_def Let_def)

lemma call_time_trace: "call_time sv s = (t, s') \<Longrightarrow> snd s' = snd s"
  by (auto simp: call_time_def split: prod.splits)

lemma fixed_answer_trace: "fixed_answer sv m start s = (a, s') \<Longrightarrow> snd s' = snd s"
  by (auto simp: fixed_answer_def call_time_def split: prod.splits)

lemma embed_trace:
  "embed sv texts s = (r, s') \<Longrightarrow> snd s' = (if texts = [] then snd s else snd s @ [Encode texts])"
  by (auto simp: embed_def call_encode_def split: prod.splits sum.splits if_splits)

lemma query_matches_trace:
  "query_matches sv d qv s = (ms, s') \<Longrightarrow>
     snd s' = snd s @ [Query (scoped_query d qv)] \<or>
     snd s' = snd s @ [Query (scoped_query d qv), Query (unscoped_query qv)]"
  by (auto simp: query_matches_def call_query_def split: prod.splits sum.splits)

lemma call_groq_api_trace:
  "client p = Some c \<Longrightarrow> call_groq_api p sv msgs temp s = (r, s') \<Longrightarrow>
     snd s' = snd s @ [HttpPost (groq_request c msgs temp)]"
  by (auto simp: call_groq_api_def call_post_def split: prod.splits sum.splits if_splits)

lemma chat_after_retrieval:
  assumes "index_available p" and "client p = Some c"
    and "call_time sv s = (start, s0)"
    and "embed sv [question] s0 = (Inr (query_vec # rest), s1)"
    and "query_matches sv document_id query_vec s1 = (matches, s2)"
  shows "chat_with_document p sv document_id question temperature s =
           chat_except sv start (answer_from_matches p sv question temperature start matches s2)"
  using assms by (simp add: chat_with_document_def chat_try_def)

lemma answer_from_matches_short:
  assumes "join [10, 10] (map match_text (filter passes_filter matches)) = [] \<or>
           length (strip (join [10, 10] (map match_text (filter passes_filter matches)))) < 50"
  shows "answer_from_matches p sv question temperature start matches s2 =
           (case fixed_answer sv msg_insufficient start s2 of (a, s') \<Rightarrow> (Inr a, s'))"
  using assms context_loop_filter [of matches "[]" "[]"]
  by (auto simp: answer_from_matches_def Let_def)

lemma answer_from_matches_long:
  assumes "\<not> (join [10, 10] (map match_text (filter passes_filter matches)) = [] \<or>
           length (strip (join [10, 10] (map match_text (filter passes_filter matches)))) < 50)"
  shows "answer_from_matches p sv question temperature start matches s2 =
           (case call_groq_api p sv
                   (chat_messages (join [10, 10] (map match_text (filter passes_filter matches))) question)
                   temperature s2 of
              (Inl e, s3) \<Rightarrow> (Inl e, s3)
            | (Inr response_text, s3) \<Rightarrow>
                (case call_time sv s3 of
                   (t, s4) \<Rightarrow>
                     (Inr \<lparr>answer = response_text,
                           sources = take 5 (map source_of (filter passes_filter matches)),
                           response_time = t - start\<rparr>, s4)))"
  using assms context_loop_filter [of matches "[]" "[]"]
  by (auto simp: answer_from_matches_def Let_def)

lemma chat_except_trace: "chat_except sv start (r, s1) = (r', s') \<Longrightarrow> snd s' = snd s1"
  by (auto simp: chat_except_def dest: fixed_answer_trace split: sum.splits prod.splits raised.splits)

text \<open>Runs of the phases in the sample environment.\<close>

lemma sample_time:
  "call_time (sample_services a b u d) (n, tr) = (real n, (Suc n, tr))"
  by (simp add: call_time_def sample_services_def)

lemma sample_embed:
  "embed (sample_services (Inr [replicate 768 1]) b u d) [q] (n, tr) =
     (Inr [replicate 768 1], (Suc n, tr @ [Encode [q]]))"
  by (simp add: embed_def call_encode_def sample_services_def list_ex_iff py_any_def embedding_dim_def)

lemma sample_query:
  "query_matches (sample_services a (Inr \<lparr>r_matches = Some ms\<rparr>) u d) doc qv (n, tr) =
     (ms, (Suc n, tr @ [Query (scoped_query doc qv)]))"
  by (simp add: query_matches_def call_query_def sample_services_def scoped_query_def matches_of_def)

lemma sample_groq:
  "call_groq_api sample_processor (sample_services a b u (Inr (ok_response r))) msgs t (n, tr) =
     (Inr r, (Suc n, tr @ [HttpPost (groq_request sample_client msgs t)]))"
  by (simp add: call_groq_api_def call_post_def sample_services_def sample_processor_def ok_response_def)

lemma sample_groq_raise:
  "call_groq_api sample_processor (sample_services a b u (Inl (RuntimeError m))) msgs t (n, tr) =
     (Inl (Raised (RuntimeError m)), (Suc n, tr @ [HttpPost (groq_request sample_client msgs t)]))"
  by (simp add: call_groq_api_def call_post_def sample_services_def sample_processor_def groq_handlers_def)

lemma sample_chat_retrieved:
  "chat_with_document sample_processor
      (sample_services (Inr [replicate 768 1]) (Inr \<lparr>r_matches = Some ms\<rparr>) u d) doc q t (0, []) =
   chat_except (sample_services (Inr [replicate 768 1]) (Inr \<lparr>r_matches = Some ms\<rparr>) u d) 0
     (answer_from_matches sample_processor
        (sample_services (Inr [replicate 768 1]) (Inr \<lparr>r_matches = Some ms\<rparr>) u d) q t 0 ms
        (3, [Encode [q], Query (scoped_query doc (replicate 768 1))]))"
proof -
  have t: "call_time (sample_services (Inr [replicate 768 1]) (Inr \<lparr>r_matches = Some ms\<rparr>) u d) (0, []) = (0, (Suc 0, []))"
    using sample_time [of "Inr [replicate 768 1]" "Inr \<lparr>r_matches = Some ms\<rparr>" u d 0 "[]"] by simp
  show ?thesis
    using chat_after_retrieval [where p = sample_processor and c = sample_client,
        OF _ _ t sample_embed sample_query]
    by (simp add: sample_processor_def numeral_3_eq_3)
qed

lemma long_unordered:
  "join [10, 10] (map match_text (filter passes_filter unordered_matches)) =
     replicate 30 97 @ [10, 10] @ replicate 30 98"
  by (simp add: unordered_matches_def passes_filter_def sample_match_def match_score_def match_text_def)

lemma long_sample:
  "join [10, 10] (map match_text (filter passes_filter sample_matches)) =
     replicate 30 97 @ [10, 10] @ replicate 30 98"
  by (simp add: sample_matches_def passes_filter_def sample_match_def match_score_def match_text_def)

lemma strip_id: "\<not> isspace (hd s) \<Longrightarrow> \<not> isspace (last s) \<Longrightarrow> strip s = s"
proof -
  assume h: "\<not> isspace (hd s)" and l: "\<not> isspace (last s)"
  have a: "dropWhile isspace s = s"
    using h by (simp add: dropWhile_eq_self_iff)
  have b: "dropWhile isspace (rev s) = rev s"
    using l by (cases "s = []") (simp_all add: dropWhile_eq_self_iff hd_rev)
  show ?thesis
    by (simp only: strip_def a b rev_rev_ident)
qed

lemma strip_long:
  "strip (replicate 30 97 @ [10, 10] @ replicate 30 98) = replicate 30 97 @ [10, 10] @ replicate 30 98"
  by (rule strip_id) (simp_all add: isspace_def)

lemma descending_pair: "descending [a, b] \<longleftrightarrow> b \<le> a"
  by (simp add: descending_def)

lemma sufficient_unordered:
  "\<not> (join [10, 10] (map match_text (filter passes_filter unordered_matches)) = [] \<or>
      length (strip (join [10, 10] (map match_text (filter passes_filter unordered_matches)))) < 50)"
proof -
  have "strip (join [10, 10] (map match_text (filter passes_filter unordered_matches))) =
      replicate 30 97 @ [10, 10] @ replicate 30 98"
    by (simp only: long_unordered strip_long)
  then show ?thesis
    by (simp add: long_unordered)
qed

lemma sufficient_sample:
  "\<not> (join [10, 10] (map match_text (filter passes_filter sample_matches)) = [] \<or>
      length (strip (join [10, 10] (map match_text (filter passes_filter sample_matches)))) < 50)"
proof -
  have "strip (join [10, 10] (map match_text (filter passes_filter sample_matches))) =
      replicate 30 97 @ [10, 10] @ replicate 30 98"
    by (simp only: long_sample strip_long)
  then show ?thesis
    by (simp add: long_sample)
qed

lemma sources_unordered:
  "take 5 (map source_of (filter passes_filter unordered_matches)) =
     [\<lparr>s_chunk_index = 0, s_score = 1 / 2\<rparr>, \<lparr>s_chunk_index = 1, s_score = 9 / 10\<rparr>]"
  by (simp add: unordered_matches_def passes_filter_def sample_match_def match_score_def
      match_text_def source_of_def match_chunk_index_def)

lemma sources_sample:
  "take 5 (map source_of (filter passes_filter sample_matches)) =
     [\<lparr>s_chunk_index = 0, s_score = 9 / 10\<rparr>, \<lparr>s_chunk_index = 1, s_score = 1 / 2\<rparr>]"
  by (simp add: sample_matches_def passes_filter_def sample_match_def match_score_def
      match_text_def source_of_def match_chunk_index_def)


lemma sample_run:
  assumes "\<not> (join [10, 10] (map match_text (filter passes_filter ms)) = [] \<or>
      length (strip (join [10, 10] (map match_text (filter passes_filter ms)))) < 50)"
  shows "chat_with_document sample_processor
      (sample_services (Inr [replicate 768 1]) (Inr \<lparr>r_matches = Some ms\<rparr>) u (Inr (ok_response r)))
      doc q t (0, []) =
    (Inr \<lparr>answer = r, sources = take 5 (map source_of (filter passes_filter ms)), response_time = 4\<rparr>,
     (5, [Encode [q], Query (scoped_query doc (replicate 768 1)),
          HttpPost (groq_request sample_client
            (chat_messages (join [10, 10] (map match_text (filter passes_filter ms))) q) t)]))"
  by (simp add: sample_chat_retrieved answer_from_matches_long [OF assms] sample_groq sample_time
      chat_except_def)

text \<open>
  Claim C2.  In a chat call that has embedded the question and retrieved \<open>matches\<close>, the
  loop keeps exactly the matches whose score is strictly greater than 0.3 and whose text is
  not empty: the chunk texts and the sources are those of the kept matches, in the order the
  index returned them.  When the context suffices, the request sent to the model carries the
  kept texts joined by blank lines, and the answer's sources are the first five kept sources.
\<close>

theorem chat_context_filter:
  assumes "index_available p" and "client p = Some c"
    and "call_time sv s = (start, s0)"
    and "embed sv [question] s0 = (Inr (query_vec # rest), s1)"
    and "query_matches sv document_id query_vec s1 = (matches, s2)"
    and "context = join [10, 10] (map match_text (filter passes_filter matches))"
  shows "context_loop matches ([], []) =
           (map match_text (filter passes_filter matches), map source_of (filter passes_filter matches))
         \<and> (\<not> (context = [] \<or> length (strip context) < 50) \<longrightarrow>
              snd (snd (chat_with_document p sv document_id question temperature s)) =
                snd s2 @ [HttpPost (groq_request c (chat_messages context question) temperature)]
              \<and> (\<forall>response_text s3.
                    call_groq_api p sv (chat_messages context question) temperature s2 = (Inr response_text, s3) \<longrightarrow>
                    fst (chat_with_document p sv document_id question temperature s) =
                      Inr \<lparr>answer = response_text,
                           sources = take 5 (map source_of (filter passes_filter matches)),
                           response_time = fst (call_time sv s3) - start\<rparr>))"
proof (intro conjI impI allI)
  show "context_loop matches ([], []) =
          (map match_text (filter passes_filter matches), map source_of (filter passes_filter matches))"
    using context_loop_filter [of matches "[]" "[]"] by simp
next
  assume long: "\<not> (context = [] \<or> length (strip context) < 50)"
  have chat: "chat_with_document p sv document_id question temperature s =
      chat_except sv start (answer_from_matches p sv question temperature start matches s2)"
    using assms(1-5) by (rule chat_after_retrieval)
  obtain r s3 where g: "call_groq_api p sv (chat_messages context question) temperature s2 = (r, s3)"
    by (cases "call_groq_api p sv (chat_messages context question) temperature s2")
  have tr3: "snd s3 = snd s2 @ [HttpPost (groq_request c (chat_messages context question) temperature)]"
    using call_groq_api_trace [OF assms(2) g] .
  obtain r' s' where a: "answer_from_matches p sv question temperature start matches s2 = (r', s')"
    by (cases "answer_from_matches p sv question temperature start matches s2")
  have "snd s' = snd s3"
    using a g long answer_from_matches_long [of matches p sv question temperature start s2]
    by (auto simp: assms(6) split: sum.splits prod.splits dest: call_time_trace)
  moreover obtain r'' s'' where c: "chat_except sv start (r', s') = (r'', s'')"
    by (cases "chat_except sv start (r', s')")
  ultimately show "snd (snd (chat_with_document p sv document_id question temperature s)) =
      snd s2 @ [HttpPost (groq_request c (chat_messages context question) temperature)]"
    using chat a tr3 chat_except_trace [OF c] by (simp add: c)
next
  fix response_text s3
  assume long: "\<not> (context = [] \<or> length (strip context) < 50)"
    and g: "call_groq_api p sv (chat_messages context question) temperature s2 = (Inr response_text, s3)"
  have chat: "chat_with_document p sv document_id question temperature s =
      chat_except sv start (answer_from_matches p sv question temperature start matches s2)"
    using assms(1-5) by (rule chat_after_retrieval)
  show "fst (chat_with_document p sv document_id question temperature s) =
      Inr \<lparr>answer = response_text,
           sources = take 5 (map source_of (filter passes_filter matches)),
           response_time = fst (call_time sv s3) - start\<rparr>"
    using long g answer_from_matches_long [of matches p sv question temperature start s2]
    by (simp add: chat assms(6) chat_except_def split: prod.splits)
qed

theorem chat_context_filter_witness:
  "context_loop sample_matches ([], []) =
     ([replicate 30 97, replicate 30 98],
      [\<lparr>s_chunk_index = 0, s_score = 9 / 10\<rparr>, \<lparr>s_chunk_index = 1, s_score = 1 / 2\<rparr>])
   \<and> snd (snd (chat_with_document sample_processor
        (sample_services (Inr [replicate 768 1]) (Inr \<lparr>r_matches = Some sample_matches\<rparr>)
           (Inl (RuntimeError [])) (Inr (ok_response (py ''ok'')))) 7 (py ''q?'') (1 / 10) (0, []))) =
       [Encode [py ''q?''], Query (scoped_query 7 (replicate 768 1)),
        HttpPost (groq_request sample_client
          (chat_messages (replicate 30 97 @ [10, 10] @ replicate 30 98) (py ''q?'')) (1 / 10))]
   \<and> fst (chat_with_document sample_processor
        (sample_services (Inr [replicate 768 1]) (Inr \<lparr>r_matches = Some sample_matches\<rparr>)
           (Inl (RuntimeError [])) (Inr (ok_response (py ''ok'')))) 7 (py ''q?'') (1 / 10) (0, [])) =
       Inr \<lparr>answer = py ''ok'',
            sources = [\<lparr>s_chunk_index = 0, s_score = 9 / 10\<rparr>, \<lparr>s_chunk_index = 1, s_score = 1 / 2\<rparr>],
            response_time = 4\<rparr>"
proof -
  let ?sv = "sample_services (Inr [replicate 768 1]) (Inr \<lparr>r_matches = Some sample_matches\<rparr>)
           (Inl (RuntimeError [])) (Inr (ok_response (py ''ok'')))"
  have i: "index_available sample_processor" and c: "client sample_processor = Some sample_client"
    by (simp_all add: sample_processor_def)
  have t: "call_time ?sv (0, []) = (0, (Suc 0, []))"
    using sample_time [of "Inr [replicate 768 1]" _ _ _ 0 "[]"] by simp
  have kept: "filter passes_filter sample_matches =
      [sample_match (9 / 10) 0 (replicate 30 97), sample_match (5 / 10) 1 (replicate 30 98)]"
    by (simp add: sample_matches_def passes_filter_def sample_match_def match_score_def match_text_def)
  have texts: "map match_text (filter passes_filter sample_matches) = [replicate 30 97, replicate 30 98]"
    by (simp add: kept sample_match_def match_text_def)
  have srcs: "map source_of (filter passes_filter sample_matches) =
      [\<lparr>s_chunk_index = 0, s_score = 9 / 10\<rparr>, \<lparr>s_chunk_index = 1, s_score = 1 / 2\<rparr>]"
    by (simp add: kept sample_match_def source_of_def match_score_def match_chunk_index_def)
  show ?thesis
    using chat_context_filter [where document_id = 7 and temperature = "1 / 10"
        and question = "py ''q?''", OF i c t sample_embed sample_query refl]
      sufficient_sample
    by (simp add: texts srcs sample_groq sample_time long_sample)
qed

subsection \<open>Chat: the sources of an answer\<close>

lemma descending_sources:
  assumes "descending (map match_score ms)"
  shows "descending (map s_score (take n (map source_of (filter P ms))))"
proof -
  have "map s_score (take n (map source_of (filter P ms))) = take n (map match_score (filter P ms))"
    by (simp add: take_map source_of_def)
  moreover have "sorted_wrt (\<lambda>a b. b \<le> a) (map match_score (filter P ms))"
    using assms by (simp add: descending_def sorted_wrt_map sorted_wrt_filter)
  ultimately show ?thesis
    by (simp add: descending_def sorted_wrt_take)
qed

text \<open>
  Claim C1, as the code has it.  In a chat call whose request to the model returns a
  response, the sources of the answer are the first five of the filtered matches (score
  above 0.3, text not empty) in the order the index returned them.  The code does not sort:
  the sources are in descending order of score whenever the index returned its matches in
  descending order of score.
\<close>

theorem chat_sources_first_five:
  assumes "index_available p" and "client p = Some c"
    and "call_time sv s = (start, s0)"
    and "embed sv [question] s0 = (Inr (query_vec # rest), s1)"
    and "query_matches sv document_id query_vec s1 = (matches, s2)"
    and "context = join [10, 10] (map match_text (filter passes_filter matches))"
    and "\<not> (context = [] \<or> length (strip context) < 50)"
    and "call_groq_api p sv (chat_messages context question) temperature s2 = (Inr response_text, s3)"
  shows "\<exists>a s4. chat_with_document p sv document_id question temperature s = (Inr a, s4)
           \<and> answer a = response_text
           \<and> sources a = take 5 (map source_of (filter passes_filter matches))
           \<and> (descending (map match_score matches) \<longrightarrow> descending (map s_score (sources a)))"
proof -
  have chat: "chat_with_document p sv document_id question temperature s =
      chat_except sv start (answer_from_matches p sv question temperature start matches s2)"
    using assms(1-5) by (rule chat_after_retrieval)
  obtain t s4 where t: "call_time sv s3 = (t, s4)"
    by (cases "call_time sv s3")
  have "chat_with_document p sv document_id question temperature s =
      (Inr \<lparr>answer = response_text, sources = take 5 (map source_of (filter passes_filter matches)),
            response_time = t - start\<rparr>, s4)"
    using assms(7,8) t answer_from_matches_long [of matches p sv question temperature start s2]
    by (simp add: chat assms(6) chat_except_def)
  then show ?thesis
    by (simp add: descending_sources)
qed

theorem chat_sources_first_five_witness:
  "descending (map match_score sample_matches)
   \<and> (\<exists>a s4. chat_with_document sample_processor
        (sample_services (Inr [replicate 768 1]) (Inr \<lparr>r_matches = Some sample_matches\<rparr>)
           (Inl (RuntimeError [])) (Inr (ok_response (py ''ok'')))) 7 (py ''q?'') (1 / 10) (0, []) = (Inr a, s4)
        \<and> answer a = py ''ok''
        \<and> sources a = [\<lparr>s_chunk_index = 0, s_score = 9 / 10\<rparr>, \<lparr>s_chunk_index = 1, s_score = 1 / 2\<rparr>]
        \<and> descending (map s_score (sources a)))"
proof -
  let ?sv = "sample_services (Inr [replicate 768 1]) (Inr \<lparr>r_matches = Some sample_matches\<rparr>)
           (Inl (RuntimeError [])) (Inr (ok_response (py ''ok'')))"
  have i: "index_available sample_processor" and c: "client sample_processor = Some sample_client"
    by (simp_all add: sample_processor_def)
  have t: "call_time ?sv (0, []) = (0, (Suc 0, []))"
    using sample_time [of "Inr [replicate 768 1]" _ _ _ 0 "[]"] by simp
  have d: "descending (map match_score sample_matches)"
    by (simp add: sample_matches_def sample_match_def match_score_def descending_def)
  show ?thesis
    using chat_sources_first_five [where document_id = 7 and temperature = "1 / 10"
        and question = "py ''q?''" and response_text = "py ''ok''",
        OF i c t sample_embed sample_query refl sufficient_sample sample_groq] d
    by (simp add: sources_sample)
qed

lemma sample_run_raise:
  assumes "\<not> (join [10, 10] (map match_text (filter passes_filter ms)) = [] \<or>
      length (strip (join [10, 10] (map match_text (filter passes_filter ms)))) < 50)"
  shows "chat_with_document sample_processor
      (sample_services (Inr [replicate 768 1]) (Inr \<lparr>r_matches = Some ms\<rparr>) u (Inl (RuntimeError m)))
      doc q t (0, []) =
    (Inr \<lparr>answer = msg_error, sources = [], response_time = 4\<rparr>,
     (5, [Encode [q], Query (scoped_query doc (replicate 768 1)),
          HttpPost (groq_request sample_client
            (chat_messages (join [10, 10] (map match_text (filter passes_filter ms))) q) t)]))"
  by (simp add: sample_chat_retrieved answer_from_matches_long [OF assms] sample_groq_raise sample_time
      chat_except_def fixed_answer_def)

text \<open>
  As claim C1 is stated, for every sequence of matches and every call that reaches the
  model, it fails twice.  With two matches that the index returns in ascending order of
  score, the sources of the answer are in that same order.  And when the request to the
  model raises, the call has reached the model, yet the answer is the fixed error answer
  with no sources, although two matches pass the filter.
\<close>

theorem chat_sources_unordered:
  "fst (chat_with_document sample_processor
      (sample_services (Inr [replicate 768 1]) (Inr \<lparr>r_matches = Some unordered_matches\<rparr>)
         (Inl (RuntimeError [])) (Inr (ok_response (py ''ok'')))) 7 (py ''q?'') (1 / 10) (0, []))
     = Inr \<lparr>answer = py ''ok'',
            sources = [\<lparr>s_chunk_index = 0, s_score = 1 / 2\<rparr>, \<lparr>s_chunk_index = 1, s_score = 9 / 10\<rparr>],
            response_time = 4\<rparr>
   \<and> \<not> descending (map s_score [\<lparr>s_chunk_index = 0, s_score = 1 / 2\<rparr>, \<lparr>s_chunk_index = 1, s_score = 9 / 10\<rparr>])
   \<and> chat_with_document sample_processor
      (sample_services (Inr [replicate 768 1]) (Inr \<lparr>r_matches = Some sample_matches\<rparr>)
         (Inl (RuntimeError [])) (Inl (RuntimeError (py ''Groq API error 500: '')))) 7 (py ''q?'') (1 / 10) (0, [])
     = (Inr \<lparr>answer = msg_error, sources = [], response_time = 4\<rparr>,
        (5, [Encode [py ''q?''], Query (scoped_query 7 (replicate 768 1)),
             HttpPost (groq_request sample_client
               (chat_messages (replicate 30 97 @ [10, 10] @ replicate 30 98) (py ''q?'')) (1 / 10))]))
   \<and> take 5 (map source_of (filter passes_filter sample_matches)) =
       [\<lparr>s_chunk_index = 0, s_score = 9 / 10\<rparr>, \<lparr>s_chunk_index = 1, s_score = 1 / 2\<rparr>]"
  by (simp add: sample_run [OF sufficient_unordered] sample_run_raise [OF sufficient_sample]
      sources_unordered sources_sample descending_pair long_sample)

subsection \<open>Chat: refusal on a short context\<close>

text \<open>
  Claim C3.  In a chat call whose assembled context is empty or, once stripped, shorter than
  50 characters, the answer is the fixed "cannot find sufficient information" one with empty
  sources, and the trace holds no request to the generative model beyond those it held
  before the call.
\<close>

theorem chat_insufficient_context:
  assumes "index_available p" and "client p = Some c"
    and "call_time sv s = (start, s0)"
    and "embed sv [question] s0 = (Inr (query_vec # rest), s1)"
    and "query_matches sv document_id query_vec s1 = (matches, s2)"
    and "context = join [10, 10] (map match_text (filter passes_filter matches))"
    and "context = [] \<or> length (strip context) < 50"
  shows "chat_with_document p sv document_id question temperature s =
           (case call_time sv s2 of
              (t, s3) \<Rightarrow>
                (Inr \<lparr>answer = msg_insufficient, sources = [], response_time = t - start\<rparr>, s3))
         \<and> filter is_HttpPost (snd (snd (chat_with_document p sv document_id question temperature s))) =
             filter is_HttpPost (snd s)"
proof -
  have chat: "chat_with_document p sv document_id question temperature s =
      chat_except sv start (answer_from_matches p sv question temperature start matches s2)"
    using assms(1-5) by (rule chat_after_retrieval)
  obtain t s3 where t: "call_time sv s2 = (t, s3)"
    by (cases "call_time sv s2")
  have res: "chat_with_document p sv document_id question temperature s =
      (Inr \<lparr>answer = msg_insufficient, sources = [], response_time = t - start\<rparr>, s3)"
    using assms(7) t answer_from_matches_short [of matches p sv question temperature start s2]
    by (simp add: chat assms(6) chat_except_def fixed_answer_def)
  have "snd s3 = snd s2"
    using t by (rule call_time_trace)
  moreover have "filter is_HttpPost (snd s2) = filter is_HttpPost (snd s1)"
    using query_matches_trace [OF assms(5)] by auto
  moreover have "filter is_HttpPost (snd s1) = filter is_HttpPost (snd s0)"
    using embed_trace [OF assms(4)] by simp
  moreover have "snd s0 = snd s"
    using assms(3) by (rule call_time_trace)
  ultimately show ?thesis
    using res t by simp
qed

lemma short_context:
  "join [10, 10] (map match_text (filter passes_filter short_matches)) = py ''too short''"
  by (simp add: short_matches_def passes_filter_def sample_match_def match_score_def match_text_def
      py_def)

lemma insufficient_short:
  "join [10, 10] (map match_text (filter passes_filter short_matches)) = [] \<or>
   length (strip (join [10, 10] (map match_text (filter passes_filter short_matches)))) < 50"
proof -
  have "strip (py ''too short'') = py ''too short''"
    by (rule strip_id) (simp_all add: isspace_def py_def)
  then show ?thesis
    by (simp add: short_context) (simp add: py_def)
qed

theorem chat_insufficient_context_witness:
  "length (strip (join [10, 10] (map match_text (filter passes_filter short_matches)))) < 50
   \<and> chat_with_document sample_processor
        (sample_services (Inr [replicate 768 1]) (Inr \<lparr>r_matches = Some short_matches\<rparr>)
           (Inl (RuntimeError [])) (Inr (ok_response (py ''ok'')))) 7 (py ''q?'') (1 / 10) (0, []) =
       (Inr \<lparr>answer = msg_insufficient, sources = [], response_time = 3\<rparr>,
        (4, [Encode [py ''q?''], Query (scoped_query 7 (replicate 768 1))]))
   \<and> filter is_HttpPost [Encode [py ''q?''], Query (scoped_query 7 (replicate 768 1))] = []"
proof -
  let ?sv = "sample_services (Inr [replicate 768 1]) (Inr \<lparr>r_matches = Some short_matches\<rparr>)
           (Inl (RuntimeError [])) (Inr (ok_response (py ''ok'')))"
  have i: "index_available sample_processor" and c: "client sample_processor = Some sample_client"
    by (simp_all add: sample_processor_def)
  have t: "call_time ?sv (0, []) = (0, (Suc 0, []))"
    using sample_time [of "Inr [replicate 768 1]" _ _ _ 0 "[]"] by simp
  have l: "length (strip (join [10, 10] (map match_text (filter passes_filter short_matches)))) < 50"
    using insufficient_short by (simp add: short_context py_def)
  show ?thesis
    using chat_insufficient_context [where document_id = 7 and temperature = "1 / 10"
        and question = "py ''q?''", OF i c t sample_embed sample_query refl insufficient_short] l
    by (simp add: sample_time)
qed

subsection \<open>Chat: the scoped query and its fallback\<close>

lemma sample_query_fallback:
  "query_matches (sample_services a (Inl e) (Inr \<lparr>r_matches = Some ms\<rparr>) d) doc qv (n, tr) =
     (ms, (Suc (Suc n), tr @ [Query (scoped_query doc qv), Query (unscoped_query qv)]))"
  by (simp add: query_matches_def call_query_def sample_services_def scoped_query_def
      unscoped_query_def matches_of_def)


lemma call_groq_api_queries:
  "call_groq_api p sv msgs temp s = (r, s') \<Longrightarrow> filter is_Query (snd s') = filter is_Query (snd s)"
  by (auto simp: call_groq_api_def call_post_def split: option.splits prod.splits sum.splits if_splits)

lemma answer_from_matches_queries:
  "answer_from_matches p sv question temperature start matches s2 = (r, s') \<Longrightarrow>
     filter is_Query (snd s') = filter is_Query (snd s2)"
proof -
  assume a: "answer_from_matches p sv question temperature start matches s2 = (r, s')"
  obtain cs ss where cl: "context_loop matches ([], []) = (cs, ss)"
    by (cases "context_loop matches ([], [])")
  show ?thesis
  proof (cases "join [10, 10] cs = [] \<or> length (strip (join [10, 10] cs)) < 50")
    case True
    obtain x sx where f: "fixed_answer sv msg_insufficient start s2 = (x, sx)"
      by (cases "fixed_answer sv msg_insufficient start s2")
    have "s' = sx"
      using a cl True f by (auto simp: answer_from_matches_def)
    then show ?thesis
      using fixed_answer_trace [OF f] by simp
  next
    case False
    obtain g sg where g: "call_groq_api p sv (chat_messages (join [10, 10] cs) question) temperature s2 = (g, sg)"
      by (cases "call_groq_api p sv (chat_messages (join [10, 10] cs) question) temperature s2")
    obtain t st where t: "call_time sv sg = (t, st)"
      by (cases "call_time sv sg")
    have "snd s' = snd sg"
      using a cl False g t call_time_trace [OF t]
      by (cases g) (auto simp: answer_from_matches_def)
    then show ?thesis
      using call_groq_api_queries [OF g] by simp
  qed
qed

text \<open>What leaves a chat call is a cancellation, and it comes from the awaited request.\<close>

lemma groq_handlers_cancelled: "groq_handlers x = CancelledError \<longleftrightarrow> x = CancelledError"
  by (auto simp: groq_handlers_def split: raised.splits exn.splits)

lemma call_groq_api_cancelled:
  assumes "call_groq_api p sv msgs temp s = (Inl CancelledError, s')"
  shows "\<exists>req w. fst (http_post sv req w) = Inl CancelledError"
proof (cases "client p")
  case None
  with assms show ?thesis
    by (simp add: call_groq_api_def)
next
  case (Some c)
  obtain r w where h: "http_post sv (groq_request c msgs temp) (fst s) = (r, w)"
    by (cases "http_post sv (groq_request c msgs temp) (fst s)")
  have "r = Inl CancelledError"
    using assms Some h
    by (cases r)
       (auto simp: call_groq_api_def call_post_def groq_handlers_cancelled
          split: if_splits sum.splits)
  with h show ?thesis
    by (metis fst_conv)
qed

lemma answer_from_matches_cancelled:
  assumes "answer_from_matches p sv question temperature start matches s2 = (Inl CancelledError, s')"
  shows "\<exists>req w. fst (http_post sv req w) = Inl CancelledError"
proof -
  obtain cs ss where cl: "context_loop matches ([], []) = (cs, ss)"
    by (cases "context_loop matches ([], [])")
  obtain g sg where g: "call_groq_api p sv (chat_messages (join [10, 10] cs) question) temperature s2 = (g, sg)"
    by (cases "call_groq_api p sv (chat_messages (join [10, 10] cs) question) temperature s2")
  have "g = Inl CancelledError"
    using assms cl g
    by (cases g) (auto simp: answer_from_matches_def Let_def split: if_splits prod.splits)
  with g show ?thesis
    using call_groq_api_cancelled by blast
qed

lemma chat_try_cancelled:
  assumes "chat_try p sv document_id question temperature start s0 = (Inl CancelledError, s')"
  shows "\<exists>req w. fst (http_post sv req w) = Inl CancelledError"
proof -
  obtain r s1 where e: "embed sv [question] s0 = (r, s1)"
    by (cases "embed sv [question] s0")
  from assms e obtain query_vec rest where r: "r = Inr (query_vec # rest)"
    by (cases r; cases "projr r")
       (auto simp: chat_try_def split: if_splits prod.splits)
  obtain ms s2 where q: "query_matches sv document_id query_vec s1 = (ms, s2)"
    by (cases "query_matches sv document_id query_vec s1")
  have "answer_from_matches p sv question temperature start ms s2 = (Inl CancelledError, s')"
    using assms e r q by (auto simp: chat_try_def split: if_splits prod.splits)
  then show ?thesis
    by (rule answer_from_matches_cancelled)
qed

lemma chat_except_Inl:
  "chat_except sv start r = (Inl x, s') \<Longrightarrow> x = CancelledError \<and> r = (Inl CancelledError, s')"
  by (auto simp: chat_except_def split: prod.splits sum.splits raised.splits)

lemma chat_only_cancelled:
  assumes "chat_with_document p sv document_id question temperature s = (Inl x, s')"
  shows "x = CancelledError"
proof -
  obtain start s0 where t: "call_time sv s = (start, s0)"
    by (cases "call_time sv s")
  show ?thesis
    using assms chat_except_Inl [of sv start "chat_try p sv document_id question temperature start s0" x s']
    by (simp add: chat_with_document_def t)
qed

lemma chat_returns_unless_cancelled:
  assumes "\<forall>req w. fst (http_post sv req w) \<noteq> Inl CancelledError"
  shows "\<exists>a s'. chat_with_document p sv document_id question temperature s = (Inr a, s')"
proof -
  obtain start s0 where t: "call_time sv s = (start, s0)"
    by (cases "call_time sv s")
  obtain r s' where c: "chat_with_document p sv document_id question temperature s = (r, s')"
    by (cases "chat_with_document p sv document_id question temperature s")
  show ?thesis
  proof (cases r)
    case (Inr a)
    with c show ?thesis
      by blast
  next
    case (Inl x)
    with c t have "chat_try p sv document_id question temperature start s0 = (Inl CancelledError, s')"
      using chat_except_Inl [of sv start "chat_try p sv document_id question temperature start s0" x s']
      by (simp add: chat_with_document_def)
    then show ?thesis
      using assms chat_try_cancelled by blast
  qed
qed

lemma query_matches_cases:
  assumes "index_query sv (scoped_query document_id query_vec) (fst s1) = (r1, w1)"
    and "index_query sv (unscoped_query query_vec) w1 = (r2, w2)"
  shows "query_matches sv document_id query_vec s1 =
     (case r1 of
        Inr results \<Rightarrow> (matches_of results, (w1, snd s1 @ [Query (scoped_query document_id query_vec)]))
      | Inl e \<Rightarrow>
          ((case r2 of Inr results \<Rightarrow> matches_of results | Inl e2 \<Rightarrow> []),
           (w2, snd s1 @ [Query (scoped_query document_id query_vec), Query (unscoped_query query_vec)])))"
  using assms by (auto simp: query_matches_def call_query_def split: sum.splits)

text \<open>
  Claim C9.  In a chat call that has embedded the question, the first query carries the
  equality filter on the given document id and \<open>top_k = 8\<close>.  When it returns, chat
  continues with its matches.  When it raises, exactly one more query is made, without
  filter, and chat continues with the matches of that one, or with no matches when it raises
  too.  The trace gains one query event in the first case and two in the second.  No
  exception of a query reaches the caller: only a cancellation of the awaited request to
  the model leaves the call, and without one the call returns an answer.
\<close>

theorem chat_scoped_query_fallback:
  assumes "index_available p" and "client p = Some c"
    and "call_time sv s = (start, s0)"
    and "embed sv [question] s0 = (Inr (query_vec # rest), s1)"
    and "index_query sv (scoped_query document_id query_vec) (fst s1) = (r1, w1)"
    and "index_query sv (unscoped_query query_vec) w1 = (r2, w2)"
  shows "q_filter (scoped_query document_id query_vec) = Some document_id
     \<and> q_top_k (scoped_query document_id query_vec) = 8
     \<and> q_filter (unscoped_query query_vec) = None
     \<and> (\<forall>results. r1 = Inr results \<longrightarrow>
           chat_with_document p sv document_id question temperature s =
             chat_except sv start
               (answer_from_matches p sv question temperature start (matches_of results)
                  (w1, snd s @ [Encode [question], Query (scoped_query document_id query_vec)])))
     \<and> (\<forall>e. r1 = Inl e \<longrightarrow>
           chat_with_document p sv document_id question temperature s =
             chat_except sv start
               (answer_from_matches p sv question temperature start
                  (case r2 of Inr results \<Rightarrow> matches_of results | Inl e2 \<Rightarrow> [])
                  (w2, snd s @ [Encode [question], Query (scoped_query document_id query_vec),
                                Query (unscoped_query query_vec)])))
     \<and> filter is_Query (snd (snd (chat_with_document p sv document_id question temperature s))) =
         filter is_Query (snd s) @
           (case r1 of
              Inr results \<Rightarrow> [Query (scoped_query document_id query_vec)]
            | Inl e \<Rightarrow> [Query (scoped_query document_id query_vec), Query (unscoped_query query_vec)])
     \<and> (\<forall>x s'. chat_with_document p sv document_id question temperature s = (Inl x, s') \<longrightarrow>
           x = CancelledError)
     \<and> ((\<forall>req w. fst (http_post sv req w) \<noteq> Inl CancelledError) \<longrightarrow>
           (\<exists>a s'. chat_with_document p sv document_id question temperature s = (Inr a, s')))"
proof -
  have tr1: "snd s1 = snd s @ [Encode [question]]"
    using embed_trace [OF assms(4)] call_time_trace [OF assms(3)] by simp
  obtain ms s2 where q: "query_matches sv document_id query_vec s1 = (ms, s2)"
    by (cases "query_matches sv document_id query_vec s1")
  have chat: "chat_with_document p sv document_id question temperature s =
      chat_except sv start (answer_from_matches p sv question temperature start ms s2)"
    using assms(1-4) q by (rule chat_after_retrieval)
  have qc: "(ms, s2) =
     (case r1 of
        Inr results \<Rightarrow> (matches_of results, (w1, snd s1 @ [Query (scoped_query document_id query_vec)]))
      | Inl e \<Rightarrow>
          ((case r2 of Inr results \<Rightarrow> matches_of results | Inl e2 \<Rightarrow> []),
           (w2, snd s1 @ [Query (scoped_query document_id query_vec), Query (unscoped_query query_vec)])))"
    using query_matches_cases [OF assms(5,6)] q by simp
  obtain r s3 where a: "answer_from_matches p sv question temperature start ms s2 = (r, s3)"
    by (cases "answer_from_matches p sv question temperature start ms s2")
  obtain r' s4 where ce: "chat_except sv start (r, s3) = (r', s4)"
    by (cases "chat_except sv start (r, s3)")
  have "filter is_Query (snd s4) = filter is_Query (snd s2)"
    using chat_except_trace [OF ce] answer_from_matches_queries [OF a] by simp
  then have queries: "filter is_Query (snd (snd (chat_with_document p sv document_id question temperature s))) =
      filter is_Query (snd s2)"
    by (simp add: chat a ce)
  have "filter is_Query (snd s2) = filter is_Query (snd s) @
           (case r1 of
              Inr results \<Rightarrow> [Query (scoped_query document_id query_vec)]
            | Inl e \<Rightarrow> [Query (scoped_query document_id query_vec), Query (unscoped_query query_vec)])"
    using qc tr1 by (cases r1) auto
  moreover have "\<forall>x s'. chat_with_document p sv document_id question temperature s = (Inl x, s') \<longrightarrow>
      x = CancelledError"
    using chat_only_cancelled by blast
  moreover have "(\<forall>req w. fst (http_post sv req w) \<noteq> Inl CancelledError) \<longrightarrow>
      (\<exists>a s'. chat_with_document p sv document_id question temperature s = (Inr a, s'))"
    using chat_returns_unless_cancelled by blast
  moreover have "\<forall>results. r1 = Inr results \<longrightarrow>
      chat_with_document p sv document_id question temperature s =
        chat_except sv start
          (answer_from_matches p sv question temperature start (matches_of results)
             (w1, snd s @ [Encode [question], Query (scoped_query document_id query_vec)]))"
    using chat qc tr1 by (cases r1) auto
  moreover have "\<forall>e. r1 = Inl e \<longrightarrow>
      chat_with_document p sv document_id question temperature s =
        chat_except sv start
          (answer_from_matches p sv question temperature start
             (case r2 of Inr results \<Rightarrow> matches_of results | Inl e2 \<Rightarrow> [])
             (w2, snd s @ [Encode [question], Query (scoped_query document_id query_vec),
                           Query (unscoped_query query_vec)]))"
    using chat qc tr1 by (cases r1) auto
  ultimately show ?thesis
    using queries by (simp add: scoped_query_def unscoped_query_def)
qed

theorem chat_scoped_query_fallback_witness:
  "index_query (sample_services (Inr [replicate 768 1]) (Inl (OtherException (py ''connection reset'')))
        (Inr \<lparr>r_matches = Some sample_matches\<rparr>) (Inr (ok_response (py ''ok''))))
      (scoped_query 7 (replicate 768 1)) 2 = (Inl (OtherException (py ''connection reset'')), 3)
   \<and> chat_with_document sample_processor
        (sample_services (Inr [replicate 768 1]) (Inl (OtherException (py ''connection reset'')))
           (Inr \<lparr>r_matches = Some sample_matches\<rparr>) (Inr (ok_response (py ''ok''))))
        7 (py ''q?'') (1 / 10) (0, []) =
       (Inr \<lparr>answer = py ''ok'',
             sources = [\<lparr>s_chunk_index = 0, s_score = 9 / 10\<rparr>, \<lparr>s_chunk_index = 1, s_score = 1 / 2\<rparr>],
             response_time = 5\<rparr>,
        (6, [Encode [py ''q?''], Query (scoped_query 7 (replicate 768 1)),
             Query (unscoped_query (replicate 768 1)),
             HttpPost (groq_request sample_client
               (chat_messages (replicate 30 97 @ [10, 10] @ replicate 30 98) (py ''q?'')) (1 / 10))]))"
proof -
  let ?sv = "sample_services (Inr [replicate 768 1]) (Inl (OtherException (py ''connection reset'')))
        (Inr \<lparr>r_matches = Some sample_matches\<rparr>) (Inr (ok_response (py ''ok'')))"
  have i: "index_available sample_processor" and c: "client sample_processor = Some sample_client"
    by (simp_all add: sample_processor_def)
  have t: "call_time ?sv (0, []) = (0, (Suc 0, []))"
    using sample_time [of "Inr [replicate 768 1]" _ _ _ 0 "[]"] by simp
  have q1: "index_query ?sv (scoped_query 7 (replicate 768 1)) (fst (Suc (Suc 0), [] @ [Encode [py ''q?'']])) =
      (Inl (OtherException (py ''connection reset'')), 3)"
    by (simp add: sample_services_def scoped_query_def)
  have q0: "index_query ?sv (scoped_query 7 (replicate 768 1)) 2 =
      (Inl (OtherException (py ''connection reset'')), 3)"
    by (simp add: sample_services_def scoped_query_def)
  have q2: "index_query ?sv (unscoped_query (replicate 768 1)) 3 = (Inr \<lparr>r_matches = Some sample_matches\<rparr>, 4)"
    by (simp add: sample_services_def unscoped_query_def)
  show ?thesis
    using chat_scoped_query_fallback [where temperature = "1 / 10", OF i c t sample_embed q1 q2] q0
    by (simp add: matches_of_def answer_from_matches_long [OF sufficient_sample] sample_groq sample_time
        chat_except_def sources_sample long_sample)
qed

subsection \<open>Chat: which exceptions stay inside\<close>









subsection \<open>Document analysis: the shape of every result\<close>

lemma dict_get_dict_set:
  "dict_get (dict_set k v d) k' = (if k' = k then Some v else dict_get d k')"
  by (induction d) (auto simp: dict_get_def)

lemma dict_get_setdefault:
  "dict_get (setdefault k v d) k' =
     (if k' = k \<and> dict_get d k = None then Some v else dict_get d k')"
  by (auto simp: setdefault_def dict_get_dict_set split: option.splits)

lemma key_facts:
  "py ''summary'' \<noteq> py ''key_points''" "py ''summary'' \<noteq> py ''clauses''"
  "py ''summary'' \<noteq> py ''risks''" "py ''summary'' \<noteq> py ''recommendations''"
  "py ''key_points'' \<noteq> py ''clauses''" "py ''key_points'' \<noteq> py ''risks''"
  "py ''key_points'' \<noteq> py ''recommendations''" "py ''clauses'' \<noteq> py ''risks''"
  "py ''clauses'' \<noteq> py ''recommendations''" "py ''risks'' \<noteq> py ''recommendations''"
  by (simp_all add: py_def)

lemma dict_get_backfill:
  "dict_get (backfill data) k =
     (case dict_get data k of
        Some v \<Rightarrow> Some v
      | None \<Rightarrow>
          if k = py ''summary'' then Some (JStr [])
          else if k \<in> set backfill_keys then Some (JArr [])
          else None)"
  using key_facts
  by (auto simp: backfill_def backfill_keys_def dict_get_setdefault split: option.splits)

lemma backfill_has_keys: "k \<in> set backfill_keys \<Longrightarrow> dict_get (backfill data) k \<noteq> None"
  by (simp add: dict_get_backfill backfill_keys_def split: option.splits)

lemma analysis_failure_eq:
  "analysis_failure e elapsed =
     [(py ''summary'', JStr (py ''Analysis unavailable. Manual legal review required.'')),
      (py ''key_points'', JArr []),
      (py ''clauses'', JArr []),
      (py ''risks'', JArr []),
      (py ''recommendations'', JArr [JStr (py ''Manual legal review required'')]),
      (py ''processing_time'', JFloat elapsed),
      (py ''error'', JStr (analysis_error e))]"
  by (simp add: analysis_failure_def fallback_analysis_def py_def)

lemma analysis_failure_has_keys:
  "k \<in> set (backfill_keys @ [py ''processing_time'']) \<Longrightarrow> dict_get (analysis_failure e x) k \<noteq> None"
  by (auto simp: analysis_failure_eq backfill_keys_def dict_get_def)

lemma fallback_has_keys:
  "k \<in> set (backfill_keys @ [py ''processing_time'']) \<Longrightarrow> dict_get fallback_analysis k \<noteq> None"
  by (auto simp: fallback_analysis_def backfill_keys_def dict_get_def)

lemma success_has_keys:
  "k \<in> set (backfill_keys @ [py ''processing_time'']) \<Longrightarrow>
     dict_get (dict_set (py ''processing_time'') v (backfill data)) k \<noteq> None"
  using backfill_has_keys [of k data] by (auto simp: dict_get_dict_set)

lemma analyze_try_result:
  "analyze_try p sv tt start s0 = (r, s1) \<Longrightarrow>
     (\<exists>x. r = Inl x) \<or> (\<exists>data v. r = Inr (dict_set (py ''processing_time'') v (backfill data)))"
  by (auto simp: analyze_try_def split: prod.splits sum.splits json.splits)

lemma analyze_try_cancelled:
  assumes "analyze_try p sv tt start s0 = (Inl CancelledError, s1)"
  shows "\<exists>req w. fst (http_post sv req w) = Inl CancelledError"
proof -
  obtain g sg where g: "call_groq_api p sv (analysis_messages tt) (1 / 10) s0 = (g, sg)"
    by (cases "call_groq_api p sv (analysis_messages tt) (1 / 10) s0")
  have "g = Inl CancelledError"
    using assms g
    by (cases g) (auto simp: analyze_try_def split: sum.splits json.splits prod.splits)
  with g show ?thesis
    using call_groq_api_cancelled by blast
qed

lemma analyze_document_cases:
  "\<exists>s'. analyze_document p sv txt s = (Inr fallback_analysis, s')
      \<or> (\<exists>e x. analyze_document p sv txt s = (Inr (analysis_failure e x), s'))
      \<or> (\<exists>data v. analyze_document p sv txt s =
            (Inr (dict_set (py ''processing_time'') v (backfill data)), s'))
      \<or> (analyze_document p sv txt s = (Inl CancelledError, s')
          \<and> (\<exists>req w. fst (http_post sv req w) = Inl CancelledError))"
proof (cases "client p = None \<or> strip txt = []")
  case True
  then have "analyze_document p sv txt s = (Inr fallback_analysis, s)"
    by (auto simp: analyze_document_def)
  then show ?thesis
    by blast
next
  case False
  obtain start s0 where t: "call_time sv s = (start, s0)"
    by (cases "call_time sv s")
  obtain r s1 where a: "analyze_try p sv (truncated txt) start s0 = (r, s1)"
    by (cases "analyze_try p sv (truncated txt) start s0")
  obtain t' s2 where t2: "call_time sv s1 = (t', s2)"
    by (cases "call_time sv s1")
  from analyze_try_result [OF a] show ?thesis
  proof
    assume "\<exists>x. r = Inl x"
    then obtain x where x: "r = Inl x" ..
    show ?thesis
    proof (cases x)
      case (Raised e)
      then have "analyze_document p sv txt s = (Inr (analysis_failure e (t' - start)), s2)"
        using False t a t2 x by (auto simp: analyze_document_def)
      then show ?thesis
        by blast
    next
      case CancelledError
      then have "analyze_document p sv txt s = (Inl CancelledError, s1)"
        using False t a x by (auto simp: analyze_document_def)
      moreover have "\<exists>req w. fst (http_post sv req w) = Inl CancelledError"
        using a x CancelledError analyze_try_cancelled by blast
      ultimately show ?thesis
        by blast
    qed
  next
    assume "\<exists>data v. r = Inr (dict_set (py ''processing_time'') v (backfill data))"
    then obtain data v where "r = Inr (dict_set (py ''processing_time'') v (backfill data))"
      by blast
    then have "analyze_document p sv txt s =
        (Inr (dict_set (py ''processing_time'') v (backfill data)), s1)"
      using False t a by (auto simp: analyze_document_def)
    then show ?thesis
      by blast
  qed
qed

lemma analyze_document_keys:
  assumes "analyze_document p sv txt s = (Inr d, s')"
    and "k \<in> set (backfill_keys @ [py ''processing_time''])"
  shows "dict_get d k \<noteq> None"
proof -
  from analyze_document_cases [of p sv "txt" s] obtain s'' where
    "analyze_document p sv txt s = (Inr fallback_analysis, s'')
      \<or> (\<exists>e x. analyze_document p sv txt s = (Inr (analysis_failure e x), s''))
      \<or> (\<exists>data v. analyze_document p sv txt s =
            (Inr (dict_set (py ''processing_time'') v (backfill data)), s''))
      \<or> (analyze_document p sv txt s = (Inl CancelledError, s'')
          \<and> (\<exists>req w. fst (http_post sv req w) = Inl CancelledError))" ..
  then consider "d = fallback_analysis" | e x where "d = analysis_failure e x"
    | data v where "d = dict_set (py ''processing_time'') v (backfill data)"
    using assms(1) by auto
  then show ?thesis
  proof cases
    case 1
    then show ?thesis
      using fallback_has_keys [OF assms(2)] by simp
  next
    case 2
    then show ?thesis
      using analysis_failure_has_keys [OF assms(2)] by simp
  next
    case 3
    then show ?thesis
      using success_has_keys [OF assms(2)] by simp
  qed
qed

lemma analyze_document_only_cancelled:
  assumes "analyze_document p sv txt s = (Inl x, s')"
  shows "x = CancelledError \<and> (\<exists>req w. fst (http_post sv req w) = Inl CancelledError)"
  using analyze_document_cases [of p sv "txt" s] assms by auto

text \<open>
  Claim C6.  Every result that \<open>analyze_document\<close> returns is a dictionary that has the keys
  \<^verbatim>\<open>summary\<close>, \<^verbatim>\<open>key_points\<close>, \<^verbatim>\<open>clauses\<close>, \<^verbatim>\<open>risks\<close>, \<^verbatim>\<open>recommendations\<close> and
  \<^verbatim>\<open>processing_time\<close>; a call returns such a result on every path, the one exception being
  a cancellation of the awaited request, which is no error of the transport or the model.
  When the model's output decodes to an object, the result is that
  object with each missing key backfilled (the empty string for \<^verbatim>\<open>summary\<close>, the empty list
  for the others; present keys are kept) and the elapsed time.  When the \<^verbatim>\<open>try\<close> block raises,
  the result is the fallback with the elapsed time and an \<^verbatim>\<open>error\<close> entry; the block raises
  when the request to the model raises, when decoding raises, and when the decoded value
  is not an object.
\<close>

theorem analyze_result_complete:
  "(\<forall>d s'. analyze_document p sv txt s = (Inr d, s') \<longrightarrow>
       (\<forall>k\<in>set (backfill_keys @ [py ''processing_time'']). dict_get d k \<noteq> None))
   \<and> (\<forall>x s'. analyze_document p sv txt s = (Inl x, s') \<longrightarrow> x = CancelledError)
   \<and> ((\<forall>req w. fst (http_post sv req w) \<noteq> Inl CancelledError) \<longrightarrow>
        (\<exists>d s'. analyze_document p sv txt s = (Inr d, s')
           \<and> (\<forall>k\<in>set (backfill_keys @ [py ''processing_time'']). dict_get d k \<noteq> None)))
   \<and> backfill_keys @ [py ''processing_time''] =
       [py ''summary'', py ''key_points'', py ''clauses'', py ''risks'', py ''recommendations'',
        py ''processing_time'']
   \<and> (\<forall>start s0 response_text s1 data t s2.
         client p \<noteq> None \<and> strip txt \<noteq> [] \<and> call_time sv s = (start, s0) \<and>
         call_groq_api p sv (analysis_messages (truncated txt)) (1 / 10) s0 = (Inr response_text, s1) \<and>
         json_loads sv (clean_response response_text) = Inr (JObj data) \<and>
         call_time sv s1 = (t, s2) \<longrightarrow>
         analyze_document p sv txt s =
           (Inr (dict_set (py ''processing_time'') (JFloat (t - start)) (backfill data)), s2)
         \<and> (dict_get data (py ''summary'') = None \<longrightarrow>
              dict_get (backfill data) (py ''summary'') = Some (JStr []))
         \<and> (\<forall>k\<in>{py ''key_points'', py ''clauses'', py ''risks'', py ''recommendations''}.
              dict_get data k = None \<longrightarrow> dict_get (backfill data) k = Some (JArr []))
         \<and> (\<forall>k v. dict_get data k = Some v \<longrightarrow> dict_get (backfill data) k = Some v))
   \<and> (\<forall>start s0 e s1 t s2.
         client p \<noteq> None \<and> strip txt \<noteq> [] \<and> call_time sv s = (start, s0) \<and>
         analyze_try p sv (truncated txt) start s0 = (Inl (Raised e), s1) \<and>
         call_time sv s1 = (t, s2) \<longrightarrow>
         analyze_document p sv txt s =
           (Inr [(py ''summary'', JStr (py ''Analysis unavailable. Manual legal review required.'')),
                 (py ''key_points'', JArr []),
                 (py ''clauses'', JArr []),
                 (py ''risks'', JArr []),
                 (py ''recommendations'', JArr [JStr (py ''Manual legal review required'')]),
                 (py ''processing_time'', JFloat (t - start)),
                 (py ''error'', JStr (analysis_error e))], s2))
   \<and> (\<forall>tt start s0 e s1.
         call_groq_api p sv (analysis_messages tt) (1 / 10) s0 = (Inl (Raised e), s1) \<longrightarrow>
         analyze_try p sv tt start s0 = (Inl (Raised e), s1))
   \<and> (\<forall>tt start s0 response_text s1 e.
         call_groq_api p sv (analysis_messages tt) (1 / 10) s0 = (Inr response_text, s1) \<and>
         json_loads sv (clean_response response_text) = Inl e \<longrightarrow>
         analyze_try p sv tt start s0 = (Inl (Raised e), s1))
   \<and> (\<forall>tt start s0 response_text s1 v.
         call_groq_api p sv (analysis_messages tt) (1 / 10) s0 = (Inr response_text, s1) \<and>
         json_loads sv (clean_response response_text) = Inr v \<and> (\<forall>data. v \<noteq> JObj data) \<longrightarrow>
         (\<exists>e. analyze_try p sv tt start s0 = (Inl (Raised e), s1)))"
proof (intro conjI)
  show "\<forall>d s'. analyze_document p sv txt s = (Inr d, s') \<longrightarrow>
       (\<forall>k\<in>set (backfill_keys @ [py ''processing_time'']). dict_get d k \<noteq> None)"
    using analyze_document_keys by blast
next
  show "\<forall>x s'. analyze_document p sv txt s = (Inl x, s') \<longrightarrow> x = CancelledError"
    using analyze_document_only_cancelled by blast
next
  show "(\<forall>req w. fst (http_post sv req w) \<noteq> Inl CancelledError) \<longrightarrow>
        (\<exists>d s'. analyze_document p sv txt s = (Inr d, s')
           \<and> (\<forall>k\<in>set (backfill_keys @ [py ''processing_time'']). dict_get d k \<noteq> None))"
  proof
    assume n: "\<forall>req w. fst (http_post sv req w) \<noteq> Inl CancelledError"
    obtain r s' where a: "analyze_document p sv txt s = (r, s')"
      by (cases "analyze_document p sv txt s")
    show "\<exists>d s'. analyze_document p sv txt s = (Inr d, s')
           \<and> (\<forall>k\<in>set (backfill_keys @ [py ''processing_time'']). dict_get d k \<noteq> None)"
    proof (cases r)
      case (Inl x)
      with a n analyze_document_only_cancelled [of p sv "txt" s x s'] show ?thesis
        by blast
    next
      case (Inr d)
      with a analyze_document_keys [of p sv "txt" s d s'] show ?thesis
        by blast
    qed
  qed
next
  show "backfill_keys @ [py ''processing_time''] =
       [py ''summary'', py ''key_points'', py ''clauses'', py ''risks'', py ''recommendations'',
        py ''processing_time'']"
    by (simp add: backfill_keys_def)
next
  show "\<forall>start s0 response_text s1 data t s2.
         client p \<noteq> None \<and> strip txt \<noteq> [] \<and> call_time sv s = (start, s0) \<and>
         call_groq_api p sv (analysis_messages (truncated txt)) (1 / 10) s0 = (Inr response_text, s1) \<and>
         json_loads sv (clean_response response_text) = Inr (JObj data) \<and>
         call_time sv s1 = (t, s2) \<longrightarrow>
         analyze_document p sv txt s =
           (Inr (dict_set (py ''processing_time'') (JFloat (t - start)) (backfill data)), s2)
         \<and> (dict_get data (py ''summary'') = None \<longrightarrow>
              dict_get (backfill data) (py ''summary'') = Some (JStr []))
         \<and> (\<forall>k\<in>{py ''key_points'', py ''clauses'', py ''risks'', py ''recommendations''}.
              dict_get data k = None \<longrightarrow> dict_get (backfill data) k = Some (JArr []))
         \<and> (\<forall>k v. dict_get data k = Some v \<longrightarrow> dict_get (backfill data) k = Some v)"
    using key_facts
    by (auto simp: analyze_document_def analyze_try_def dict_get_backfill backfill_keys_def)
next
  show "\<forall>start s0 e s1 t s2.
         client p \<noteq> None \<and> strip txt \<noteq> [] \<and> call_time sv s = (start, s0) \<and>
         analyze_try p sv (truncated txt) start s0 = (Inl (Raised e), s1) \<and>
         call_time sv s1 = (t, s2) \<longrightarrow>
         analyze_document p sv txt s =
           (Inr [(py ''summary'', JStr (py ''Analysis unavailable. Manual legal review required.'')),
                 (py ''key_points'', JArr []),
                 (py ''clauses'', JArr []),
                 (py ''risks'', JArr []),
                 (py ''recommendations'', JArr [JStr (py ''Manual legal review required'')]),
                 (py ''processing_time'', JFloat (t - start)),
                 (py ''error'', JStr (analysis_error e))], s2)"
    by (simp add: analyze_document_def analysis_failure_eq)
next
  show "\<forall>tt start s0 e s1.
         call_groq_api p sv (analysis_messages tt) (1 / 10) s0 = (Inl (Raised e), s1) \<longrightarrow>
         analyze_try p sv tt start s0 = (Inl (Raised e), s1)"
    by (simp add: analyze_try_def)
next
  show "\<forall>tt start s0 response_text s1 e.
         call_groq_api p sv (analysis_messages tt) (1 / 10) s0 = (Inr response_text, s1) \<and>
         json_loads sv (clean_response response_text) = Inl e \<longrightarrow>
         analyze_try p sv tt start s0 = (Inl (Raised e), s1)"
    by (simp add: analyze_try_def)
next
  show "\<forall>tt start s0 response_text s1 v.
         call_groq_api p sv (analysis_messages tt) (1 / 10) s0 = (Inr response_text, s1) \<and>
         json_loads sv (clean_response response_text) = Inr v \<and> (\<forall>data. v \<noteq> JObj data) \<longrightarrow>
         (\<exists>e. analyze_try p sv tt start s0 = (Inl (Raised e), s1))"
    by (auto simp: analyze_try_def split: json.splits)
qed

lemma strip_py_Lease: "strip (py ''Lease'') = py ''Lease''"
  by (rule strip_id) (simp_all add: isspace_def py_def)

lemma clean_braces: "clean_response (py ''{}'') = py ''{}''"
proof -
  have "strip (py ''{}'') = py ''{}''"
    by (rule strip_id) (simp_all add: isspace_def py_def)
  then show ?thesis
    by (simp add: clean_response_def startswith_def) (simp add: py_def)
qed

lemma clean_oops: "clean_response (py ''oops'') = py ''oops''"
proof -
  have "strip (py ''oops'') = py ''oops''"
    by (rule strip_id) (simp_all add: isspace_def py_def)
  then show ?thesis
    by (simp add: clean_response_def startswith_def) (simp add: py_def)
qed

lemma backfill_empty:
  "dict_set (py ''processing_time'') v (backfill []) =
     [(py ''summary'', JStr []), (py ''key_points'', JArr []), (py ''clauses'', JArr []),
      (py ''risks'', JArr []), (py ''recommendations'', JArr []), (py ''processing_time'', v)]"
  by (simp add: backfill_def backfill_keys_def setdefault_def dict_get_def py_def)

theorem analyze_result_complete_witness:
  "analyze_document sample_processor
      (sample_services (Inl (RuntimeError [])) (Inl (RuntimeError [])) (Inl (RuntimeError []))
         (Inr (ok_response (py ''{}'')))) (py ''Lease'') (0, []) =
     (Inr [(py ''summary'', JStr []), (py ''key_points'', JArr []), (py ''clauses'', JArr []),
           (py ''risks'', JArr []), (py ''recommendations'', JArr []),
           (py ''processing_time'', JFloat 2)],
      (3, [HttpPost (groq_request sample_client (analysis_messages (py ''Lease'')) (1 / 10))]))
   \<and> analyze_document sample_processor
      (sample_services (Inl (RuntimeError [])) (Inl (RuntimeError [])) (Inl (RuntimeError []))
         (Inr (ok_response (py ''oops'')))) (py ''Lease'') (0, []) =
     (Inr [(py ''summary'', JStr (py ''Analysis unavailable. Manual legal review required.'')),
           (py ''key_points'', JArr []),
           (py ''clauses'', JArr []),
           (py ''risks'', JArr []),
           (py ''recommendations'', JArr [JStr (py ''Manual legal review required'')]),
           (py ''processing_time'', JFloat 2),
           (py ''error'', JStr (py ''AI response parsing failed: Expecting value''))],
      (3, [HttpPost (groq_request sample_client (analysis_messages (py ''Lease'')) (1 / 10))]))"
proof -
  let ?a = "sample_services (Inl (RuntimeError [])) (Inl (RuntimeError [])) (Inl (RuntimeError []))
         (Inr (ok_response (py ''{}'')))"
  let ?b = "sample_services (Inl (RuntimeError [])) (Inl (RuntimeError [])) (Inl (RuntimeError []))
         (Inr (ok_response (py ''oops'')))"
  let ?tr = "[HttpPost (groq_request sample_client (analysis_messages (py ''Lease'')) (1 / 10))]"
  have c: "client sample_processor \<noteq> None"
    by (simp add: sample_processor_def)
  have n: "strip (py ''Lease'') \<noteq> []"
    by (simp add: strip_py_Lease) (simp add: py_def)
  have tr: "truncated (py ''Lease'') = py ''Lease''"
    by (simp add: truncated_def py_def)
  have ta: "call_time ?a (0, []) = (0, (1, []))" and tb: "call_time ?b (0, []) = (0, (1, []))"
    by (simp_all add: sample_time)
  have ga: "call_groq_api sample_processor ?a (analysis_messages (truncated (py ''Lease''))) (1 / 10) (1, []) =
      (Inr (py ''{}''), (2, ?tr))"
    using sample_groq [of _ _ _ "py ''{}''" _ _ 1 "[]"] by (simp add: tr)
  have gb: "call_groq_api sample_processor ?b (analysis_messages (truncated (py ''Lease''))) (1 / 10) (1, []) =
      (Inr (py ''oops''), (2, ?tr))"
    using sample_groq [of _ _ _ "py ''oops''" _ _ 1 "[]"] by (simp add: tr)
  have ja: "json_loads ?a (clean_response (py ''{}'')) = Inr (JObj [])"
    by (simp add: clean_braces sample_services_def)
  have jb: "json_loads ?b (clean_response (py ''oops'')) = Inl (JSONDecodeError (py ''Expecting value''))"
    by (simp add: clean_oops sample_services_def) (simp add: py_def)
  have t2a: "call_time ?a (2, ?tr) = (2, (3, ?tr))" and t2b: "call_time ?b (2, ?tr) = (2, (3, ?tr))"
    by (simp_all add: sample_time)
  have first: "analyze_document sample_processor ?a (py ''Lease'') (0, []) =
      (Inr (dict_set (py ''processing_time'') (JFloat (2 - 0)) (backfill [])), (3, ?tr))"
    using analyze_result_complete [of sample_processor ?a "py ''Lease''" "(0, [])",
        THEN conjunct2, THEN conjunct2, THEN conjunct2, THEN conjunct2, THEN conjunct1, rule_format,
        of 0 "(1, [])" "py ''{}''" "(2, ?tr)" "[]" 2 "(3, ?tr)"] c n ta ga ja t2a
    by simp
  have tryb: "analyze_try sample_processor ?b (truncated (py ''Lease'')) 0 (1, []) =
      (Inl (Raised (JSONDecodeError (py ''Expecting value''))), (2, ?tr))"
    using analyze_result_complete [of sample_processor ?b "py ''Lease''" "(0, [])",
        THEN conjunct2, THEN conjunct2, THEN conjunct2, THEN conjunct2, THEN conjunct2,
        THEN conjunct2, THEN conjunct2, THEN conjunct1, rule_format,
        of "truncated (py ''Lease'')" "(1, [])" "py ''oops''" "(2, ?tr)"
          "JSONDecodeError (py ''Expecting value'')" 0] gb jb
    by simp
  have second: "analyze_document sample_processor ?b (py ''Lease'') (0, []) =
      (Inr [(py ''summary'', JStr (py ''Analysis unavailable. Manual legal review required.'')),
            (py ''key_points'', JArr []),
            (py ''clauses'', JArr []),
            (py ''risks'', JArr []),
            (py ''recommendations'', JArr [JStr (py ''Manual legal review required'')]),
            (py ''processing_time'', JFloat (2 - 0)),
            (py ''error'', JStr (analysis_error (JSONDecodeError (py ''Expecting value''))))], (3, ?tr))"
    using analyze_result_complete [of sample_processor ?b "py ''Lease''" "(0, [])",
        THEN conjunct2, THEN conjunct2, THEN conjunct2, THEN conjunct2, THEN conjunct2,
        THEN conjunct1, rule_format,
        of 0 "(1, [])" "JSONDecodeError (py ''Expecting value'')" "(2, ?tr)" 2 "(3, ?tr)"]
      c n tb tryb t2b
    by simp
  have err: "analysis_error (JSONDecodeError (py ''Expecting value'')) =
      py ''AI response parsing failed: Expecting value''"
    by (simp add: analysis_error_def py_def)
  show ?thesis
    using first second by (simp add: backfill_empty err)
qed

subsection \<open>Storing embeddings\<close>

lemma concat_batches: "0 < n \<Longrightarrow> concat (batches n xs) = xs"
proof (induction n xs rule: batches.induct)
  case (1 n xs)
  then show ?case
    by (subst batches.simps) auto
qed

lemma length_batches: "b \<in> set (batches n xs) \<Longrightarrow> length b \<le> n \<and> b \<noteq> []"
proof (induction n xs rule: batches.induct)
  case (1 n xs)
  show ?case
  proof (cases "n = 0 \<or> xs = []")
    case True
    with "1.prems" show ?thesis
      by (simp add: batches.simps)
  next
    case False
    then have "batches n xs = take n xs # batches n (drop n xs)"
      by (subst batches.simps) simp
    with "1.prems" have "b = take n xs \<or> b \<in> set (batches n (drop n xs))"
      by simp
    then show ?thesis
    proof
      assume "b = take n xs"
      with False show ?thesis
        by auto
    next
      assume "b \<in> set (batches n (drop n xs))"
      then show ?thesis
        using "1.IH" [OF False] by simp
    qed
  qed
qed

lemma prepare_loop_enumerate:
  "prepare_loop document_id metadata i cvs (payload, n) =
     (payload @ map (\<lambda>(j, (chunk, vec)). make_record document_id metadata j chunk vec)
                  (enumerate i cvs),
      n + length cvs)"
  by (induction cvs arbitrary: i payload n) auto

lemma upload_batches_trace:
  "upload_batches sv payload i s = (Inr u, s') \<Longrightarrow>
     snd s' = snd s @ map Upsert (batches batch_size (drop i payload))"
proof (induction sv payload i s rule: upload_batches.induct)
  case (1 sv payload i s)
  show ?case
  proof (cases "i < length payload")
    case False
    with "1.prems" show ?thesis
      by (simp add: batches.simps upload_batches.simps [of sv payload i s])
  next
    case True
    obtain r s1 where c: "call_upsert sv (take batch_size (drop i payload)) s = (r, s1)"
      by (cases "call_upsert sv (take batch_size (drop i payload)) s")
    have tr: "snd s1 = snd s @ [Upsert (take batch_size (drop i payload))]"
      using c by (auto simp: call_upsert_def split: prod.splits)
    from "1.prems" True c obtain x where r: "r = Inr x"
      and rest: "upload_batches sv payload (i + batch_size) s1 = (Inr u, s')"
      by (cases r) (auto simp: upload_batches.simps [of sv payload i s])
    have "snd s' = snd s1 @ map Upsert (batches batch_size (drop (i + batch_size) payload))"
      using "1.IH" [OF True c [symmetric] r rest] .
    moreover have "batches batch_size (drop i payload) =
        take batch_size (drop i payload) # batches batch_size (drop (i + batch_size) payload)"
      using True by (subst batches.simps) (simp add: batch_size_def add.commute)
    ultimately show ?thesis
      using tr by simp
  qed
qed

lemma prepare_loop_paired:
  "prepare_loop document_id metadata 0 (zip chunks vectors) ([], 0) =
     (paired_records document_id metadata chunks vectors, length (zip chunks vectors))"
  by (simp add: prepare_loop_enumerate paired_records_def)

lemma verify_query_take: "0 < n \<Longrightarrow> verify_query d (take n vs) = verify_query d vs"
  by (cases vs; cases n) (simp_all add: verify_query_def)

lemma upload_and_verify_take:
  "0 < n \<Longrightarrow> upload_and_verify sv d (take n vs) payload s = upload_and_verify sv d vs payload s"
  by (simp only: upload_and_verify_def verify_query_take)

lemma upload_and_verify_True:
  assumes "upload_and_verify sv d vectors payload s1 = (True, s')"
  shows "\<exists>u s2 ms. upload_batches sv payload 0 s1 = (Inr u, s2)
      \<and> index_query sv (verify_query d vectors) (time_sleep sv 2 (fst s2)) =
          (Inr \<lparr>r_matches = Some ms\<rparr>, fst s')
      \<and> ms \<noteq> []
      \<and> snd s' = snd s2 @ [Sleep 2, Query (verify_query d vectors)]"
proof -
  obtain r s2 where u: "upload_batches sv payload 0 s1 = (r, s2)"
    by (cases "upload_batches sv payload 0 s1")
  obtain q w where q: "index_query sv (verify_query d vectors) (time_sleep sv 2 (fst s2)) = (q, w)"
    by (cases "index_query sv (verify_query d vectors) (time_sleep sv 2 (fst s2))")
  from assms u obtain x where r: "r = Inr x"
    by (cases r) (auto simp: upload_and_verify_def)
  from assms u r q obtain resp where resp: "q = Inr resp"
    by (cases q) (auto simp: upload_and_verify_def call_query_def call_sleep_def)
  from assms u r q resp obtain ms where ms: "r_matches resp = Some ms" "ms \<noteq> []"
    and s': "s' = (w, snd s2 @ [Sleep 2, Query (verify_query d vectors)])"
    by (cases "r_matches resp") (auto simp: upload_and_verify_def call_query_def call_sleep_def)
  have "resp = \<lparr>r_matches = Some ms\<rparr>"
    using ms by (cases resp) simp
  then show ?thesis
    using u r q resp ms(2) s' by (intro exI [of _ x] exI [of _ s2] exI [of _ ms]) simp
qed

lemma upload_and_verify_False:
  assumes "upload_batches sv payload 0 s1 = (Inr u, s2)"
    and "index_query sv (verify_query d vectors) (time_sleep sv 2 (fst s2)) = (r, w)"
    and "case r of Inl e \<Rightarrow> True | Inr resp \<Rightarrow> r_matches resp = None \<or> r_matches resp = Some []"
  shows "upload_and_verify sv d vectors payload s1 =
           (False, (w, snd s2 @ [Sleep 2, Query (verify_query d vectors)]))"
  using assms
  by (auto simp: upload_and_verify_def call_query_def call_sleep_def split: sum.splits option.splits)

lemma store_unfold:
  assumes "index_available p" and "strip txt \<noteq> []"
    and "split_text sv txt = Inr chunks" and "chunks \<noteq> []"
    and "embed sv chunks s = (Inr vectors, s1)" and "vectors \<noteq> []"
  shows "store_document_embeddings p sv document_id txt metadata s =
           (case upload_and_verify sv document_id vectors
                   (paired_records document_id metadata chunks vectors) s1 of
              (b, s2) \<Rightarrow> (Inr b, s2))"
proof -
  define n where "n = min (length vectors) (length chunks)"
  obtain b s2 where uv: "upload_and_verify sv document_id vectors
      (paired_records document_id metadata chunks vectors) s1 = (b, s2)"
    by (cases "upload_and_verify sv document_id vectors
      (paired_records document_id metadata chunks vectors) s1")
  have t: "txt \<noteq> []"
    using assms(2) by (auto simp: strip_def)
  have n: "0 < n"
    using assms(4,6) by (simp add: n_def)
  have z: "zip (take n chunks) (take n vectors) = zip chunks vectors"
    unfolding n_def by (metis length_zip min.commute take_zip take_all order_refl)
  have l: "length (zip chunks vectors) \<noteq> 0"
    using assms(4,6) by simp
  have pl: "prepare_loop document_id metadata 0 (zip chunks vectors) ([], 0) =
      (paired_records document_id metadata chunks vectors, length (zip chunks vectors))"
    by (rule prepare_loop_paired)
  have uvt: "upload_and_verify sv document_id (take n vectors)
      (paired_records document_id metadata chunks vectors) s1 = (b, s2)"
    using uv n by (simp add: upload_and_verify_take)
  have m: "(min (length chunks) (length vectors) = 0) = False"
    using assms(4,6) by (simp add: min_def)
  have "store_try sv document_id txt metadata s = (Inr b, s2)"
  proof (cases "length vectors = length chunks")
    case True
    then show ?thesis
      using assms(3-6) l pl uv by (simp add: store_try_def Let_def m)
  next
    case False
    then show ?thesis
      using assms(3-6) l pl uvt z by (simp add: store_try_def Let_def n_def [symmetric] m)
  qed
  then show ?thesis
    using assms(1,2) t uv by (simp add: store_document_embeddings_def)
qed

lemma store_returns:
  "\<exists>b s'. store_document_embeddings p sv document_id txt metadata s = (Inr b, s')"
  by (auto simp: store_document_embeddings_def split: prod.splits sum.splits)

lemma store_early_False:
  assumes "index_available p" and "strip txt \<noteq> []"
    and "(\<exists>e. split_text sv txt = Inl e) \<or> split_text sv txt = Inr [] \<or>
         (\<exists>chunks r s1. split_text sv txt = Inr chunks \<and> chunks \<noteq> [] \<and> embed sv chunks s = (r, s1) \<and>
            (r = Inr [] \<or> (\<exists>e. r = Inl e)))"
  shows "fst (store_document_embeddings p sv document_id txt metadata s) = Inr False"
proof -
  have t: "txt \<noteq> []"
    using assms(2) by (auto simp: strip_def)
  from assms(3) have "fst (store_try sv document_id txt metadata s) \<noteq> Inr True"
    by (auto simp: store_try_def)
  then show ?thesis
    using assms(1,2) t
    by (cases "store_try sv document_id txt metadata s")
       (auto simp: store_document_embeddings_def split: sum.splits)
qed

lemma store_True_inv:
  assumes "store_document_embeddings p sv document_id txt metadata s = (Inr True, s')"
  shows "index_available p \<and> strip txt \<noteq> [] \<and>
     (\<exists>chunks vectors s1.
        split_text sv txt = Inr chunks \<and> chunks \<noteq> [] \<and>
        embed sv chunks s = (Inr vectors, s1) \<and> vectors \<noteq> [] \<and>
        upload_and_verify sv document_id vectors
          (paired_records document_id metadata chunks vectors) s1 = (True, s'))"
proof -
  have i: "index_available p"
    using assms by (auto simp: store_document_embeddings_def split: if_splits)
  have n: "strip txt \<noteq> []"
    using assms by (auto simp: store_document_embeddings_def split: if_splits)
  have nF: "fst (store_document_embeddings p sv document_id txt metadata s) \<noteq> Inr False"
    using assms by simp
  note early = store_early_False [OF i n, of sv s document_id metadata]
  obtain chunks where c: "split_text sv txt = Inr chunks" "chunks \<noteq> []"
  proof (cases "split_text sv txt")
    case (Inl e)
    with early nF show ?thesis
      by blast
  next
    case (Inr cs)
    show ?thesis
    proof (cases "cs = []")
      case True
      with Inr early nF show ?thesis
        by blast
    next
      case False
      with Inr that show ?thesis
        by blast
    qed
  qed
  obtain r s1 where e: "embed sv chunks s = (r, s1)"
    by (cases "embed sv chunks s")
  obtain vectors where v: "r = Inr vectors" "vectors \<noteq> []"
  proof (cases r)
    case (Inl x)
    with early nF c e show ?thesis
      by blast
  next
    case (Inr vs)
    show ?thesis
    proof (cases "vs = []")
      case True
      with Inr early nF c e show ?thesis
        by blast
    next
      case False
      with Inr that show ?thesis
        by blast
    qed
  qed
  have "upload_and_verify sv document_id vectors
          (paired_records document_id metadata chunks vectors) s1 = (True, s')"
    using store_unfold [OF i n c e [unfolded v(1)] v(2), of document_id metadata] assms
    by (auto split: prod.splits)
  then show ?thesis
    using i n c e v by blast
qed

text \<open>
  Claim C4.  \<open>store_document_embeddings\<close> always returns a truth value and raises nothing.
  When it returns true, the index was configured, the text was not blank, the splitter gave
  chunks, the embedder gave vectors, the records (one per pair of chunk and vector) were
  uploaded in consecutive batches of at most 50, each upload returning, and after them the
  verification query, filtered on the document id, returned at least one match.  It returns
  false without an index, on empty or blank text, when no chunk is produced, when no valid
  vector remains, and when the verification query raises or returns no match.
\<close>

theorem store_embeddings_result:
  "(\<exists>b s'. store_document_embeddings p sv document_id txt metadata s = (Inr b, s'))
   \<and> (\<forall>s'. store_document_embeddings p sv document_id txt metadata s = (Inr True, s') \<longrightarrow>
         index_available p \<and> strip txt \<noteq> [] \<and>
         (\<exists>chunks vectors s1 u s2 ms.
            split_text sv txt = Inr chunks \<and> chunks \<noteq> [] \<and>
            embed sv chunks s = (Inr vectors, s1) \<and> vectors \<noteq> [] \<and>
            upload_batches sv (paired_records document_id metadata chunks vectors) 0 s1 = (Inr u, s2) \<and>
            snd s2 = snd s1 @
              map Upsert (batches 50 (paired_records document_id metadata chunks vectors)) \<and>
            (\<forall>b\<in>set (batches 50 (paired_records document_id metadata chunks vectors)).
               length b \<le> 50 \<and> b \<noteq> []) \<and>
            concat (batches 50 (paired_records document_id metadata chunks vectors)) =
              paired_records document_id metadata chunks vectors \<and>
            q_filter (verify_query document_id vectors) = Some document_id \<and>
            index_query sv (verify_query document_id vectors) (time_sleep sv 2 (fst s2)) =
              (Inr \<lparr>r_matches = Some ms\<rparr>, fst s') \<and>
            ms \<noteq> [] \<and>
            snd s' = snd s2 @ [Sleep 2, Query (verify_query document_id vectors)]))
   \<and> (\<not> index_available p \<longrightarrow>
         store_document_embeddings p sv document_id txt metadata s = (Inr False, s))
   \<and> ((\<forall>c\<in>set txt. isspace c) \<longrightarrow>
         store_document_embeddings p sv document_id txt metadata s = (Inr False, s))
   \<and> (index_available p \<and> strip txt \<noteq> [] \<and> split_text sv txt = Inr [] \<longrightarrow>
         store_document_embeddings p sv document_id txt metadata s = (Inr False, s))
   \<and> (\<forall>chunks s1.
         index_available p \<and> strip txt \<noteq> [] \<and> split_text sv txt = Inr chunks \<and> chunks \<noteq> [] \<and>
         embed sv chunks s = (Inr [], s1) \<longrightarrow>
         store_document_embeddings p sv document_id txt metadata s = (Inr False, s1))
   \<and> (\<forall>chunks vectors s1 u s2 r w.
         index_available p \<and> strip txt \<noteq> [] \<and> split_text sv txt = Inr chunks \<and> chunks \<noteq> [] \<and>
         embed sv chunks s = (Inr vectors, s1) \<and> vectors \<noteq> [] \<and>
         upload_batches sv (paired_records document_id metadata chunks vectors) 0 s1 = (Inr u, s2) \<and>
         index_query sv (verify_query document_id vectors) (time_sleep sv 2 (fst s2)) = (r, w) \<and>
         (case r of Inl e \<Rightarrow> True | Inr resp \<Rightarrow> r_matches resp = None \<or> r_matches resp = Some []) \<longrightarrow>
         store_document_embeddings p sv document_id txt metadata s =
           (Inr False, (w, snd s2 @ [Sleep 2, Query (verify_query document_id vectors)])))"
proof (intro conjI allI impI)
  show "\<exists>b s'. store_document_embeddings p sv document_id txt metadata s = (Inr b, s')"
    by (rule store_returns)
next
  fix s'
  assume t: "store_document_embeddings p sv document_id txt metadata s = (Inr True, s')"
  from store_True_inv [OF t] show "index_available p" and "strip txt \<noteq> []"
    by simp_all
  from store_True_inv [OF t] obtain chunks vectors s1 where
    c: "split_text sv txt = Inr chunks" "chunks \<noteq> []"
    and e: "embed sv chunks s = (Inr vectors, s1)" "vectors \<noteq> []"
    and uv: "upload_and_verify sv document_id vectors
          (paired_records document_id metadata chunks vectors) s1 = (True, s')"
    by blast
  from upload_and_verify_True [OF uv] obtain u s2 ms where
    ub: "upload_batches sv (paired_records document_id metadata chunks vectors) 0 s1 = (Inr u, s2)"
    and q: "index_query sv (verify_query document_id vectors) (time_sleep sv 2 (fst s2)) =
          (Inr \<lparr>r_matches = Some ms\<rparr>, fst s')" "ms \<noteq> []"
    and tr: "snd s' = snd s2 @ [Sleep 2, Query (verify_query document_id vectors)]"
    by blast
  have b: "snd s2 = snd s1 @ map Upsert (batches 50 (paired_records document_id metadata chunks vectors))"
    using upload_batches_trace [OF ub] by (simp add: batch_size_def)
  have l: "\<forall>b\<in>set (batches 50 (paired_records document_id metadata chunks vectors)).
               length b \<le> 50 \<and> b \<noteq> []"
    using length_batches by blast
  have cc: "concat (batches 50 (paired_records document_id metadata chunks vectors)) =
              paired_records document_id metadata chunks vectors"
    by (simp add: concat_batches)
  have f: "q_filter (verify_query document_id vectors) = Some document_id"
    by (simp add: verify_query_def)
  show "\<exists>chunks vectors s1 u s2 ms.
            split_text sv txt = Inr chunks \<and> chunks \<noteq> [] \<and>
            embed sv chunks s = (Inr vectors, s1) \<and> vectors \<noteq> [] \<and>
            upload_batches sv (paired_records document_id metadata chunks vectors) 0 s1 = (Inr u, s2) \<and>
            snd s2 = snd s1 @
              map Upsert (batches 50 (paired_records document_id metadata chunks vectors)) \<and>
            (\<forall>b\<in>set (batches 50 (paired_records document_id metadata chunks vectors)).
               length b \<le> 50 \<and> b \<noteq> []) \<and>
            concat (batches 50 (paired_records document_id metadata chunks vectors)) =
              paired_records document_id metadata chunks vectors \<and>
            q_filter (verify_query document_id vectors) = Some document_id \<and>
            index_query sv (verify_query document_id vectors) (time_sleep sv 2 (fst s2)) =
              (Inr \<lparr>r_matches = Some ms\<rparr>, fst s') \<and>
            ms \<noteq> [] \<and>
            snd s' = snd s2 @ [Sleep 2, Query (verify_query document_id vectors)]"
    using c e ub b l cc f q tr
    by (intro exI [of _ chunks] exI [of _ vectors] exI [of _ s1] exI [of _ u] exI [of _ s2]
        exI [of _ ms]) simp
next
  assume "\<not> index_available p"
  then show "store_document_embeddings p sv document_id txt metadata s = (Inr False, s)"
    by (simp add: store_document_embeddings_def)
next
  assume "\<forall>c\<in>set txt. isspace c"
  then have "strip txt = []"
    by (simp add: strip_Nil_iff)
  then show "store_document_embeddings p sv document_id txt metadata s = (Inr False, s)"
    by (simp add: store_document_embeddings_def)
next
  assume h: "index_available p \<and> strip txt \<noteq> [] \<and> split_text sv txt = Inr []"
  then have "txt \<noteq> []"
    by (auto simp: strip_def)
  with h show "store_document_embeddings p sv document_id txt metadata s = (Inr False, s)"
    by (simp add: store_document_embeddings_def store_try_def)
next
  fix chunks s1
  assume h: "index_available p \<and> strip txt \<noteq> [] \<and> split_text sv txt = Inr chunks \<and> chunks \<noteq> [] \<and>
         embed sv chunks s = (Inr [], s1)"
  then have "txt \<noteq> []"
    by (auto simp: strip_def)
  with h show "store_document_embeddings p sv document_id txt metadata s = (Inr False, s1)"
    by (simp add: store_document_embeddings_def store_try_def)
next
  fix chunks vectors s1 u s2 r w
  assume h: "index_available p \<and> strip txt \<noteq> [] \<and> split_text sv txt = Inr chunks \<and> chunks \<noteq> [] \<and>
         embed sv chunks s = (Inr vectors, s1) \<and> vectors \<noteq> [] \<and>
         upload_batches sv (paired_records document_id metadata chunks vectors) 0 s1 = (Inr u, s2) \<and>
         index_query sv (verify_query document_id vectors) (time_sleep sv 2 (fst s2)) = (r, w) \<and>
         (case r of Inl e \<Rightarrow> True | Inr resp \<Rightarrow> r_matches resp = None \<or> r_matches resp = Some [])"
  then have ub: "upload_batches sv (paired_records document_id metadata chunks vectors) 0 s1 = (Inr u, s2)"
    and q: "index_query sv (verify_query document_id vectors) (time_sleep sv 2 (fst s2)) = (r, w)"
    and nm: "case r of Inl e \<Rightarrow> True | Inr resp \<Rightarrow> r_matches resp = None \<or> r_matches resp = Some []"
    by blast+
  have "upload_and_verify sv document_id vectors
      (paired_records document_id metadata chunks vectors) s1 =
      (False, (w, snd s2 @ [Sleep 2, Query (verify_query document_id vectors)]))"
    using ub q nm by (rule upload_and_verify_False)
  then show "store_document_embeddings p sv document_id txt metadata s =
           (Inr False, (w, snd s2 @ [Sleep 2, Query (verify_query document_id vectors)]))"
    using h store_unfold [of p "txt" sv chunks s vectors s1 document_id metadata] by simp
qed

lemma sample_upload:
  "upload_batches (sample_services a b u d) [r] 0 (n, tr) = (Inr (), (Suc n, tr @ [Upsert [r]]))"
  by (subst upload_batches.simps, subst upload_batches.simps)
     (simp add: call_upsert_def sample_services_def batch_size_def)

lemma sample_paired:
  "paired_records document_id metadata [chunk] [vec] = [make_record document_id metadata 0 chunk vec]"
  by (simp add: paired_records_def enumerate_simps)

theorem store_embeddings_result_witness:
  "store_document_embeddings sample_processor
      (sample_services (Inr [replicate 768 1]) (Inr \<lparr>r_matches = Some []\<rparr>) (Inl (RuntimeError []))
         (Inl (RuntimeError []))) 7 (py ''Lease'') [] (0, []) =
     (Inr False,
      (4, [Encode [py ''Lease''],
           Upsert [make_record 7 [] 0 (py ''Lease'') (replicate 768 1)],
           Sleep 2, Query (verify_query 7 [replicate 768 1])]))
   \<and> store_document_embeddings sample_processor
      (sample_services (Inr [replicate 768 1]) (Inr \<lparr>r_matches = Some sample_matches\<rparr>)
         (Inl (RuntimeError [])) (Inl (RuntimeError []))) 7 (py ''Lease'') [] (0, []) =
     (Inr True,
      (4, [Encode [py ''Lease''],
           Upsert [make_record 7 [] 0 (py ''Lease'') (replicate 768 1)],
           Sleep 2, Query (verify_query 7 [replicate 768 1])]))
   \<and> index_available sample_processor \<and> strip (py ''Lease'') \<noteq> []"
proof -
  let ?a = "sample_services (Inr [replicate 768 1]) (Inr \<lparr>r_matches = Some []\<rparr>) (Inl (RuntimeError []))
         (Inl (RuntimeError []))"
  let ?b = "sample_services (Inr [replicate 768 1]) (Inr \<lparr>r_matches = Some sample_matches\<rparr>)
         (Inl (RuntimeError [])) (Inl (RuntimeError []))"
  let ?rec = "make_record 7 [] 0 (py ''Lease'') (replicate 768 1)"
  let ?tr = "[Encode [py ''Lease''], Upsert [?rec]]"
  have i: "index_available sample_processor"
    by (simp add: sample_processor_def)
  have n: "strip (py ''Lease'') \<noteq> []"
    by (simp add: strip_py_Lease) (simp add: py_def)
  have sa: "split_text ?a (py ''Lease'') = Inr [py ''Lease'']"
    and sb: "split_text ?b (py ''Lease'') = Inr [py ''Lease'']"
    by (simp_all add: sample_services_def)
  have ea: "embed ?a [py ''Lease''] (0, []) = (Inr [replicate 768 1], (1, [Encode [py ''Lease'']]))"
    and eb: "embed ?b [py ''Lease''] (0, []) = (Inr [replicate 768 1], (1, [Encode [py ''Lease'']]))"
    using sample_embed [of _ _ _ "py ''Lease''" 0 "[]"] by simp_all
  have ua: "upload_batches ?a (paired_records 7 [] [py ''Lease''] [replicate 768 1]) 0
      (1, [Encode [py ''Lease'']]) = (Inr (), (2, ?tr))"
    and ub: "upload_batches ?b (paired_records 7 [] [py ''Lease''] [replicate 768 1]) 0
      (1, [Encode [py ''Lease'']]) = (Inr (), (2, ?tr))"
    using sample_upload [of _ _ _ _ ?rec 1 "[Encode [py ''Lease'']]"] by (simp_all add: sample_paired)
  have qa: "index_query ?a (verify_query 7 [replicate 768 1]) (time_sleep ?a 2 (fst (2, ?tr))) =
      (Inr \<lparr>r_matches = Some []\<rparr>, 4)"
    by (simp add: sample_services_def verify_query_def)
  have qb: "index_query ?b (verify_query 7 [replicate 768 1]) (time_sleep ?b 2 2) =
      (Inr \<lparr>r_matches = Some sample_matches\<rparr>, 4)"
    by (simp add: sample_services_def verify_query_def)
  have first: "store_document_embeddings sample_processor ?a 7 (py ''Lease'') [] (0, []) =
      (Inr False, (4, snd (2, ?tr) @ [Sleep 2, Query (verify_query 7 [replicate 768 1])]))"
    using store_embeddings_result [of sample_processor ?a 7 "py ''Lease''" "[]" "(0, [])",
        THEN conjunct2, THEN conjunct2, THEN conjunct2, THEN conjunct2, THEN conjunct2,
        THEN conjunct2, rule_format,
        of "[py ''Lease'']" "[replicate 768 1]" "(1, [Encode [py ''Lease'']])" "()" "(2, ?tr)"
          "Inr \<lparr>r_matches = Some []\<rparr>" 4]
      i n sa ea ua qa
    by simp
  have "upload_and_verify ?b 7 [replicate 768 1] (paired_records 7 [] [py ''Lease''] [replicate 768 1])
      (1, [Encode [py ''Lease'']]) =
      (True, (4, ?tr @ [Sleep 2, Query (verify_query 7 [replicate 768 1])]))"
    using ub qb
    by (simp add: upload_and_verify_def call_query_def call_sleep_def sample_matches_def
        sample_services_def)
  then have second: "store_document_embeddings sample_processor ?b 7 (py ''Lease'') [] (0, []) =
      (Inr True, (4, ?tr @ [Sleep 2, Query (verify_query 7 [replicate 768 1])]))"
    using store_unfold [OF i n sb _ eb, of 7 "[]"] by simp
  show ?thesis
    using first second i n by simp
qed

end
